theory Spec2Isabelle
  imports Main "HOL-Library.AList" "HOL-Library.Word"
begin

section \<open>Python values\<close>

text \<open>
  The integration works on the JSON documents returned by the Audiobookshelf server, as
  Python's decoder hands them over: \<open>None\<close>, \<open>bool\<close>, unbounded \<open>int\<close>, \<open>float\<close>
  (an IEEE 754 binary64 value, kept as its 64 bits; no arithmetic is done on it here),
  \<open>str\<close>, \<open>list\<close> and \<open>dict\<close> with string keys. A \<open>dict\<close> is the list of its items
  in insertion order; Python keeps the keys of a dict distinct, and every operation below
  preserves that. Strings are Isabelle strings, one \<open>char\<close> for one code point; the
  character tests below are those of Python on ASCII text, which is what the keys of the
  Audiobookshelf API are.
\<close>

datatype json =
    JNull
  | JBool bool
  | JInt int
  | JFloat "64 word"
  | JStr string
  | JList "json list"
  | JObj "(string \<times> json) list"

type_synonym dict = "(string \<times> json) list"

text \<open>The exceptions that occur, by class. \<open>ClientError\<close> stands for
  \<open>aiohttp.ClientError\<close> and all its subclasses; \<open>UpdateFailed\<close> carries the endpoint
  and the cause that the source formats into its message.\<close>

datatype cause = Status int | Client string

datatype exn =
    KeyError string
  | AttributeError
  | TypeError
  | ValueError
  | ClientError string
  | UpdateFailed string cause
  | OtherError string

text \<open>\<open>d[k] = v\<close>: an existing key keeps its place and takes the new value, a new key
  goes to the end. \<open>d.update(other)\<close> stores the items of \<open>other\<close> in their order.\<close>

definition dict_set :: "string \<Rightarrow> 'v \<Rightarrow> (string \<times> 'v) list \<Rightarrow> (string \<times> 'v) list" where
  "dict_set k v d = AList.update k v d"

definition dict_update :: "(string \<times> 'v) list \<Rightarrow> (string \<times> 'v) list \<Rightarrow> (string \<times> 'v) list" where
  "dict_update d other = fold (\<lambda>(k, v). dict_set k v) other d"

text \<open>\<open>x in (0, None)\<close>: identity or equality with one of the two. \<open>False == 0\<close>,
  \<open>0.0 == 0\<close> and \<open>-0.0 == 0\<close> hold in Python; no string or container equals \<open>0\<close>.\<close>

fun in_0_None :: "json \<Rightarrow> bool" where
  "in_0_None JNull = True"
| "in_0_None (JBool b) = (\<not> b)"
| "in_0_None (JInt i) = (i = 0)"
| "in_0_None (JFloat w) = (w = 0 \<or> w = 0x8000000000000000)"
| "in_0_None _ = False"

text \<open>Truth value of an object in a condition.\<close>

fun truthy :: "json \<Rightarrow> bool" where
  "truthy JNull = False"
| "truthy (JBool b) = b"
| "truthy (JInt i) = (i \<noteq> 0)"
| "truthy (JFloat w) = (\<not> (w = 0 \<or> w = 0x8000000000000000))"
| "truthy (JStr s) = (s \<noteq> [])"
| "truthy (JList xs) = (xs \<noteq> [])"
| "truthy (JObj d) = (d \<noteq> [])"

text \<open>\<open>x[key]\<close> with a string key: only a dict can be indexed by a string.\<close>

fun py_getitem :: "json \<Rightarrow> string \<Rightarrow> exn + json" where
  "py_getitem (JObj d) key = (case map_of d key of Some v \<Rightarrow> Inr v | None \<Rightarrow> Inl (KeyError key))"
| "py_getitem _ key = Inl TypeError"

text \<open>\<open>x.get(key, default)\<close>: of the JSON values only a dict has the method.\<close>

fun py_get :: "json \<Rightarrow> string \<Rightarrow> json \<Rightarrow> exn + json" where
  "py_get (JObj d) key dflt = Inr (case map_of d key of Some v \<Rightarrow> v | None \<Rightarrow> dflt)"
| "py_get _ key dflt = Inl AttributeError"

text \<open>\<open>for item in x\<close>: the items of a list, the keys of a dict, the characters of a
  string; anything else is not iterable.\<close>

fun py_iter :: "json \<Rightarrow> exn + json list" where
  "py_iter (JList xs) = Inr xs"
| "py_iter (JObj d) = Inr (map (\<lambda>(k, v). JStr k) d)"
| "py_iter (JStr s) = Inr (map (\<lambda>c. JStr [c]) s)"
| "py_iter _ = Inl TypeError"

text \<open>\<open>dict(x)\<close>. A dict is copied. Any other iterable must yield sequences of length
  two with a hashable first component. The result is kept as far as its string keys go:
  an item stored under \<open>None\<close>, a boolean or a number is not represented (nothing below
  looks up such a key).\<close>

fun py_pair :: "json \<Rightarrow> exn + (json \<times> json)" where
  "py_pair (JList xs) = (case xs of [k, v] \<Rightarrow> Inr (k, v) | _ \<Rightarrow> Inl ValueError)"
| "py_pair (JStr s) = (case s of [a, b] \<Rightarrow> Inr (JStr [a], JStr [b]) | _ \<Rightarrow> Inl ValueError)"
| "py_pair (JObj d) = (case d of [(a, _), (b, _)] \<Rightarrow> Inr (JStr a, JStr b) | _ \<Rightarrow> Inl ValueError)"
| "py_pair _ = Inl TypeError"

fun dict_of_pairs :: "dict \<Rightarrow> json list \<Rightarrow> exn + dict" where
  "dict_of_pairs d [] = Inr d"
| "dict_of_pairs d (item # items) =
     (case py_pair item of
        Inl e \<Rightarrow> Inl e
      | Inr (k, v) \<Rightarrow>
          (case k of
             JStr key \<Rightarrow> dict_of_pairs (dict_set key v d) items
           | JList _ \<Rightarrow> Inl TypeError
           | JObj _ \<Rightarrow> Inl TypeError
           | _ \<Rightarrow> dict_of_pairs d items))"

fun py_dict :: "json \<Rightarrow> exn + dict" where
  "py_dict (JObj d) = Inr d"
| "py_dict (JList xs) = dict_of_pairs [] xs"
| "py_dict (JStr s) = dict_of_pairs [] (map (\<lambda>c. JStr [c]) s)"
| "py_dict _ = Inl TypeError"


section \<open>Value functions of the sensors (sensor.py)\<close>

text \<open>
  A sensor's \<open>data_function\<close> and \<open>attributes_function\<close> are called with the payload of
  its endpoint, which is a dict at that point. Either may raise. An attributes function
  returns a dict and may write into the payload it was given (\<open>clean_user_attributes\<close>
  does), so its result is the dict it returns together with the payload as the call
  leaves it.
\<close>

type_synonym data_function = "dict \<Rightarrow> exn + json"
type_synonym attributes_function = "dict \<Rightarrow> exn + (dict \<times> dict)"

text \<open>\<open>count_active_users\<close>: the loop over \<open>data["users"]\<close>, with the counter as
  accumulator. \<open>user["username"]\<close> is read only when \<open>user["isActive"]\<close> is true.\<close>

fun count_users :: "json list \<Rightarrow> int \<Rightarrow> exn + int" where
  "count_users [] count = Inr count"
| "count_users (user # users) count =
     (case py_getitem user ''isActive'' of
        Inl e \<Rightarrow> Inl e
      | Inr active \<Rightarrow>
          if truthy active then
            (case py_getitem user ''username'' of
               Inl e \<Rightarrow> Inl e
             | Inr username \<Rightarrow>
                 if username \<noteq> JStr ''hass'' then count_users users (count + 1)
                 else count_users users count)
          else count_users users count)"

definition count_active_users :: data_function where
  "count_active_users data =
     (case py_getitem (JObj data) ''users'' of
        Inl e \<Rightarrow> Inl e
      | Inr us \<Rightarrow>
          (case py_iter us of
             Inl e \<Rightarrow> Inl e
           | Inr users \<Rightarrow>
               (case count_users users 0 of Inl e \<Rightarrow> Inl e | Inr count \<Rightarrow> Inr (JInt count))))"

definition do_nothing :: attributes_function where
  "do_nothing data = Inr (data, data)"

text \<open>The \<open>data_function\<close> of a library's item sensor,
  \<open>lambda data: data.get("totalItems")\<close>.\<close>

definition total_items :: data_function where
  "total_items data = py_get (JObj data) ''totalItems'' JNull"


section \<open>Key conversion (sensor.py, \<open>camel_to_snake\<close>)\<close>

definition ascii_uppercase :: string where
  "ascii_uppercase = ''ABCDEFGHIJKLMNOPQRSTUVWXYZ''"

definition ascii_lowercase :: string where
  "ascii_lowercase = ''abcdefghijklmnopqrstuvwxyz''"

definition isupper :: "char \<Rightarrow> bool" where
  "isupper c \<longleftrightarrow> c \<in> set ascii_uppercase"

definition lower :: "char \<Rightarrow> char" where
  "lower c = (case map_of (zip ascii_uppercase ascii_lowercase) c of Some l \<Rightarrow> l | None \<Rightarrow> c)"

definition lstrip :: "char \<Rightarrow> string \<Rightarrow> string" where
  "lstrip c s = dropWhile (\<lambda>x. x = c) s"

definition convert_key :: "string \<Rightarrow> string" where
  "convert_key key =
     lstrip CHR ''_'' (concat (map (\<lambda>char. if isupper char then [CHR ''_'', lower char] else [char]) key))"

fun is_container :: "json \<Rightarrow> bool" where
  "is_container (JObj _) = True"
| "is_container (JList _) = True"
| "is_container _ = False"

text \<open>A dict comprehension stores its items one after the other, so of two keys that
  convert to the same name the later value stays, at the place of the first.\<close>

fun camel_to_snake :: "json \<Rightarrow> json" where
  "camel_to_snake (JObj d) =
     JObj (dict_update []
       (map (\<lambda>(key, value). (convert_key key, if is_container value then camel_to_snake value else value)) d))"
| "camel_to_snake (JList xs) =
     JList (map (\<lambda>item. if is_container item then camel_to_snake item else item) xs)"
| "camel_to_snake data = data"


section \<open>Libraries and the sensor registry (sensor.py)\<close>

record library_folder =
  folder_id :: string
  full_path :: "string option"
  library_id :: string
  added_at :: "int option"

record library_settings =
  cover_aspect_ratio :: "int option"
  disable_watcher :: "bool option"
  auto_scan_cron_expression :: "string option"
  skip_matching_media_with_asin :: "bool option"
  skip_matching_media_with_isbn :: "bool option"
  audiobooks_only :: "bool option"
  epubs_allow_scripted_content :: "bool option"
  hide_single_book_series :: "bool option"
  only_show_later_books_in_continue_series :: "bool option"
  metadata_precedence :: "string list option"
  mark_as_finished_percent_complete :: "int option"
  mark_as_finished_time_remaining :: "int option"

text \<open>The dataclass \<open>Library\<close>; its fields \<open>id\<close> and \<open>name\<close> are \<open>lib_id\<close> and
  \<open>lib_name\<close> here.\<close>

record library =
  lib_id :: string
  lib_name :: string
  folders :: "library_folder list option"
  display_order :: "int option"
  icon :: "string option"
  media_type :: "string option"
  provider :: "string option"
  settings :: "library_settings option"
  last_scan :: "int option"
  last_scan_version :: "string option"
  created_at :: "int option"
  last_update :: "int option"

text \<open>A descriptor (\<open>Sensor = dict[str, Any]\<close>) names its two functions; here they are
  named by a constructor each, the three lambdas of \<open>generate_library_sensors\<close> included.
  Only the descriptors of libraries have a \<open>unique_id\<close>.\<close>

datatype callable =
    Count_active_users
  | Clean_user_attributes
  | Count_open_sessions
  | Count_libraries
  | Get_library_stats
  | Do_nothing
  | Extract_server_version
  | Total_size_lambda
  | Total_items_lambda
  | Total_duration_lambda

record sensor =
  endpoint :: string
  name :: string
  unique_id :: "string option"
  data_function :: callable
  attributes_function :: callable
  unit :: string

type_synonym registry = "(string \<times> sensor) list"

text \<open>The module-level dict \<open>sensors\<close> as the module creates it.\<close>

definition sensors :: registry where
  "sensors =
    [(''users'',
        \<lparr>endpoint = ''api/users'', name = ''Audiobookshelf Users'', unique_id = None,
         data_function = Count_active_users, attributes_function = Clean_user_attributes,
         unit = ''users''\<rparr>),
     (''sessions'',
        \<lparr>endpoint = ''api/users/online'', name = ''Audiobookshelf Open Sessions'', unique_id = None,
         data_function = Count_open_sessions, attributes_function = Do_nothing,
         unit = ''sessions''\<rparr>),
     (''libraries'',
        \<lparr>endpoint = ''api/libraries'', name = ''Audiobookshelf Libraries'', unique_id = None,
         data_function = Count_libraries, attributes_function = Get_library_stats,
         unit = ''libraries''\<rparr>),
     (''server_version'',
        \<lparr>endpoint = ''api/authorize'', name = ''Audiobookshelf Server Version'', unique_id = None,
         data_function = Extract_server_version, attributes_function = Do_nothing,
         unit = ''version''\<rparr>)]"

text \<open>The dict that \<open>generate_library_sensors\<close> builds for one library and hands to
  \<open>sensors.update\<close>.\<close>

definition base_id :: "library \<Rightarrow> string" where
  "base_id library = ''library_'' @ lib_id library"

definition stats_endpoint :: "library \<Rightarrow> string" where
  "stats_endpoint library = ''api/libraries/'' @ lib_id library @ ''/stats''"

definition size_sensor :: "library \<Rightarrow> sensor" where
  "size_sensor library =
     \<lparr>endpoint = stats_endpoint library,
      name = ''Audiobookshelf '' @ lib_name library @ '' Size'',
      unique_id = Some (base_id library @ ''_size''),
      data_function = Total_size_lambda, attributes_function = Do_nothing, unit = ''GB''\<rparr>"

definition items_sensor :: "library \<Rightarrow> sensor" where
  "items_sensor library =
     \<lparr>endpoint = stats_endpoint library,
      name = ''Audiobookshelf '' @ lib_name library @ '' Items'',
      unique_id = Some (base_id library @ ''_items''),
      data_function = Total_items_lambda, attributes_function = Do_nothing, unit = ''items''\<rparr>"

definition duration_sensor :: "library \<Rightarrow> sensor" where
  "duration_sensor library =
     \<lparr>endpoint = stats_endpoint library,
      name = ''Audiobookshelf '' @ lib_name library @ '' Duration'',
      unique_id = Some (base_id library @ ''_duration''),
      data_function = Total_duration_lambda, attributes_function = Do_nothing, unit = ''hours''\<rparr>"

definition library_sensors :: "library \<Rightarrow> registry" where
  "library_sensors library =
     [(base_id library @ ''_size'', size_sensor library),
      (base_id library @ ''_items'', items_sensor library),
      (base_id library @ ''_duration'', duration_sensor library)]"

text \<open>\<open>generate_library_sensors\<close> updates the module-level dict in place; here it takes
  the registry and returns the updated one.\<close>

fun generate_library_sensors :: "registry \<Rightarrow> library list \<Rightarrow> registry" where
  "generate_library_sensors registry [] = registry"
| "generate_library_sensors registry (library # libraries) =
     generate_library_sensors (dict_update registry (library_sensors library)) libraries"


section \<open>The HTTP session\<close>

text \<open>
  One \<open>session.get(url, headers=headers)\<close> either raises, or gives a response with a
  status, whose \<open>await response.json()\<close> in turn gives a document or raises. The server
  and the network are a state \<open>'w\<close> that each request may change.
\<close>

datatype http_outcome = Raises exn | Response int "exn + json"

type_synonym 'w session = "'w \<Rightarrow> string \<Rightarrow> (string \<times> string) list \<Rightarrow> http_outcome \<times> 'w"

record conf =
  url :: string
  api_key :: string
  scan_interval :: int

text \<open>Modelled from the spec: \<open>HTTP_OK\<close> is a constant of \<open>const.py\<close>, which is not
  among the sources; the spec has "success is status 200".\<close>

definition HTTP_OK :: int where
  "HTTP_OK = 200"

definition headers :: "conf \<Rightarrow> (string \<times> string) list" where
  "headers conf = [(''Authorization'', ''Bearer '' @ api_key conf)]"


section \<open>Library discovery (sensor.py, \<open>get_libraries\<close>)\<close>

text \<open>
  \<open>from_dict\<close> is \<open>dacite.from_dict(data_class=Library, data=...)\<close>, a function of
  a library outside this repository: it is a parameter. The list comprehension converts
  the entries in order and stops at the first one that raises.
\<close>

definition convert_library :: "(dict \<Rightarrow> exn + 'lib) \<Rightarrow> json \<Rightarrow> exn + 'lib" where
  "convert_library from_dict lib =
     (case py_dict (camel_to_snake lib) of Inl e \<Rightarrow> Inl e | Inr d \<Rightarrow> from_dict d)"

fun convert_libraries :: "(dict \<Rightarrow> exn + 'lib) \<Rightarrow> json list \<Rightarrow> exn + 'lib list" where
  "convert_libraries from_dict [] = Inr []"
| "convert_libraries from_dict (lib # libs) =
     (case convert_library from_dict lib of
        Inl e \<Rightarrow> Inl e
      | Inr library \<Rightarrow>
          (case convert_libraries from_dict libs of
             Inl e \<Rightarrow> Inl e
           | Inr libraries \<Rightarrow> Inr (library # libraries)))"

text \<open>What the body of the \<open>try\<close> does with the outcome of the request.\<close>

definition libraries_of_outcome :: "(dict \<Rightarrow> exn + 'lib) \<Rightarrow> http_outcome \<Rightarrow> exn + 'lib list" where
  "libraries_of_outcome from_dict out =
     (case out of
        Raises e \<Rightarrow> Inl e
      | Response status body \<Rightarrow>
          if status = HTTP_OK then
            (case body of
               Inl e \<Rightarrow> Inl e
             | Inr data \<Rightarrow>
                 (case py_get data ''libraries'' (JList []) of
                    Inl e \<Rightarrow> Inl e
                  | Inr libraries_data \<Rightarrow>
                      (case py_iter libraries_data of
                         Inl e \<Rightarrow> Inl e
                       | Inr libs \<Rightarrow> convert_libraries from_dict libs)))
          else Inr [])"

text \<open>\<open>except aiohttp.ClientError: return []\<close>; any other exception leaves the function.\<close>

definition get_libraries ::
  "(dict \<Rightarrow> exn + 'lib) \<Rightarrow> 'w session \<Rightarrow> conf \<Rightarrow> 'w \<Rightarrow> (exn + 'lib list) \<times> 'w" where
  "get_libraries from_dict get conf w =
     (case get w (url conf @ ''/api/libraries'') (headers conf) of
        (out, w') \<Rightarrow>
          ((case libraries_of_outcome from_dict out of
              Inl (ClientError e) \<Rightarrow> Inr []
            | r \<Rightarrow> r), w'))"


section \<open>The refresh cycle (sensor.py, \<open>_async_update_data\<close>)\<close>



type_synonym requests = "(string \<times> http_outcome) list"

text \<open>\<open>url = f"{self.conf[CONF_URL]}/{endpoint}"\<close>.\<close>

definition endpoint_url :: "conf \<Rightarrow> string \<Rightarrow> string" where
  "endpoint_url conf endpoint' = url conf @ ''/'' @ endpoint'"

text \<open>The body of the loop for one endpoint: the inner \<open>try\<close> turns an
  \<open>aiohttp.ClientError\<close> into \<open>UpdateFailed\<close>, a status other than 200 raises
  \<open>UpdateFailed\<close>, and any other exception passes.\<close>

definition reraise :: "string \<Rightarrow> exn \<Rightarrow> exn" where
  "reraise endpoint' e = (case e of ClientError msg \<Rightarrow> UpdateFailed endpoint' (Client msg) | _ \<Rightarrow> e)"

definition response_data :: "string \<Rightarrow> http_outcome \<Rightarrow> exn + json" where
  "response_data endpoint' out =
     (case out of
        Raises e \<Rightarrow> Inl (reraise endpoint' e)
      | Response status body \<Rightarrow>
          if status \<noteq> HTTP_OK then Inl (UpdateFailed endpoint' (Status status))
          else (case body of Inl e \<Rightarrow> Inl (reraise endpoint' e) | Inr document \<Rightarrow> Inr document))"

fun fetch_endpoints ::
  "'w session \<Rightarrow> conf \<Rightarrow> string list \<Rightarrow> dict \<Rightarrow> requests \<Rightarrow> 'w \<Rightarrow> (exn + dict) \<times> requests \<times> 'w" where
  "fetch_endpoints get conf [] data issued w = (Inr data, issued, w)"
| "fetch_endpoints get conf (endpoint' # rest) data issued w =
     (case get w (endpoint_url conf endpoint') (headers conf) of
        (out, w') \<Rightarrow>
          (case response_data endpoint' out of
             Inl e \<Rightarrow> (Inl e, issued @ [(endpoint', out)], w')
           | Inr document \<Rightarrow>
               fetch_endpoints get conf rest (dict_set endpoint' document data)
                 (issued @ [(endpoint', out)]) w'))"

definition async_update_data ::
  "'w session \<Rightarrow> conf \<Rightarrow> string list \<Rightarrow> 'w \<Rightarrow> (exn + dict) \<times> requests \<times> 'w" where
  "async_update_data get conf order w = fetch_endpoints get conf order [] [] w"


section \<open>The sensor entity (sensor.py, \<open>AudiobookshelfSensor\<close>)\<close>

record sensor_entity =
  self_name :: string
  self_unique_id :: string
  self_attr_unit_of_measurement :: "string option"
  self_endpoint :: string
  self_state :: json
  self_attr_extra_state_attributes :: dict
  self_process_data :: data_function
  self_process_attributes :: attributes_function

text \<open>
  \<open>async_update\<close> reads \<open>coordinator.data\<close> (\<open>None\<close> before the first refresh) and
  changes the entity. It returns the entity as it leaves it and the exception it raises,
  if any: when the data function raises, the attributes have been merged already.
\<close>

definition async_update :: "dict option \<Rightarrow> sensor_entity \<Rightarrow> exn option \<times> sensor_entity" where
  "async_update coordinator_data self =
     (case coordinator_data of
        None \<Rightarrow> (None, self)
      | Some data \<Rightarrow>
          if data = [] then (None, self)
          else
            (case (case map_of data (self_endpoint self) of Some v \<Rightarrow> v | None \<Rightarrow> JObj []) of
               JObj endpoint_data \<Rightarrow>
                 (case self_process_attributes self endpoint_data of
                    Inl e \<Rightarrow> (Some e, self)
                  | Inr (processed_attributes, endpoint_data') \<Rightarrow>
                      (let self' = self\<lparr>self_attr_extra_state_attributes :=
                             dict_update (self_attr_extra_state_attributes self) processed_attributes\<rparr>
                       in case self_process_data self endpoint_data' of
                            Inl e \<Rightarrow> (Some e, self')
                          | Inr new_state \<Rightarrow>
                              if \<not> in_0_None new_state \<or> in_0_None (self_state self)
                              then (None, self'\<lparr>self_state := new_state\<rparr>)
                              else (None, self')))
             | _ \<Rightarrow> (None, self)))"


section \<open>The connectivity sensor (binary_sensor.py, \<open>is_on\<close>)\<close>

text \<open>
  The coordinator of the binary sensor is created outside the sources at hand, so its
  \<open>data\<close> is any Python object: a JSON value, or an object with a \<open>get\<close> method of its
  own, which may return anything or raise anything.
\<close>

datatype pyobj = Value json | Object "string \<Rightarrow> json \<Rightarrow> exn + pyobj"

fun obj_get :: "pyobj \<Rightarrow> string \<Rightarrow> json \<Rightarrow> exn + pyobj" where
  "obj_get (Value v) key dflt = (case py_get v key dflt of Inl e \<Rightarrow> Inl e | Inr r \<Rightarrow> Inr (Value r))"
| "obj_get (Object get) key dflt = get key dflt"

text \<open>The expression of the \<open>try\<close> body,
  \<open>self.coordinator.data.get("connectivity", "").get("success", "")\<close>.\<close>

definition coordinator_get :: "pyobj \<Rightarrow> exn + pyobj" where
  "coordinator_get data =
     (case obj_get data ''connectivity'' (JStr '''') of
        Inl e \<Rightarrow> Inl e
      | Inr connectivity \<Rightarrow> obj_get connectivity ''success'' (JStr ''''))"

definition is_on :: "pyobj \<Rightarrow> exn + bool" where
  "is_on data =
     (case coordinator_get data of
        Inr got \<Rightarrow> Inr (case got of Value (JBool b) \<Rightarrow> b | _ \<Rightarrow> False)
      | Inl (KeyError k) \<Rightarrow> Inr False
      | Inl AttributeError \<Rightarrow> Inr False
      | Inl e \<Rightarrow> Inl e)"



section \<open>Notions of the statements and example inputs\<close>

text \<open>\<open>isinstance(x, dict)\<close>.\<close>

fun is_dict :: "json \<Rightarrow> bool" where
  "is_dict (JObj _) = True"
| "is_dict _ = False"

text \<open>A user record of the \<open>api/users\<close> payload: an object with a boolean \<open>isActive\<close>
  and a string \<open>username\<close>. Such a user counts when \<open>isActive\<close> is true and the name is
  not \<open>hass\<close>.\<close>

definition is_user_record :: "json \<Rightarrow> bool" where
  "is_user_record user =
     (case user of
        JObj d \<Rightarrow>
          (case map_of d ''isActive'' of
             Some (JBool b) \<Rightarrow> (case map_of d ''username'' of Some (JStr n) \<Rightarrow> True | _ \<Rightarrow> False)
           | _ \<Rightarrow> False)
      | _ \<Rightarrow> False)"

definition active_not_hass :: "json \<Rightarrow> bool" where
  "active_not_hass user \<longleftrightarrow>
     py_getitem user ''isActive'' = Inr (JBool True) \<and> py_getitem user ''username'' \<noteq> Inr (JStr ''hass'')"

text \<open>The keys under which \<open>generate_library_sensors\<close> registers a library.\<close>

definition library_keys :: "library \<Rightarrow> string set" where
  "library_keys library = set (map fst (library_sensors library))"

text \<open>A request has failed when it raised a transport error (\<open>aiohttp.ClientError\<close>) or
  was answered with a status other than 200.\<close>

fun failed :: "http_outcome \<Rightarrow> bool" where
  "failed (Raises (ClientError msg)) = True"
| "failed (Raises _) = False"
| "failed (Response status body) = (status \<noteq> HTTP_OK)"

text \<open>\<open>AudiobookshelfSensor.__init__\<close>: the entity of a descriptor, given the two
  functions that the descriptor names.\<close>

definition sensor_entity_init :: "sensor \<Rightarrow> data_function \<Rightarrow> attributes_function \<Rightarrow> sensor_entity" where
  "sensor_entity_init sensor process_data process_attributes =
     \<lparr>self_name = name sensor,
      self_unique_id = (case unique_id sensor of Some u \<Rightarrow> u | None \<Rightarrow> name sensor),
      self_attr_unit_of_measurement = Some (unit sensor),
      self_endpoint = endpoint sensor,
      self_state = JNull,
      self_attr_extra_state_attributes = [],
      self_process_data = process_data,
      self_process_attributes = process_attributes\<rparr>"

text \<open>The library of the spec's end-to-end scenario, the entity of its item sensor, and a
  configuration.\<close>

definition lib1 :: library where
  "lib1 =
     \<lparr>lib_id = ''lib1'', lib_name = ''Books'', folders = None, display_order = None, icon = None,
      media_type = None, provider = None, settings = None, last_scan = None,
      last_scan_version = None, created_at = None, last_update = None\<rparr>"

definition items_entity :: sensor_entity where
  "items_entity = sensor_entity_init (items_sensor lib1) total_items do_nothing"

definition example_conf :: conf where
  "example_conf = \<lparr>url = ''http://abs.local'', api_key = ''secret'', scan_interval = 300\<rparr>"

text \<open>A stand-in for \<open>dacite.from_dict\<close> in the examples: it reads the two required
  fields of \<open>Library\<close> and leaves the optional ones empty.\<close>

definition example_from_dict :: "dict \<Rightarrow> exn + library" where
  "example_from_dict d =
     (case map_of d ''id'' of
        Some (JStr i) \<Rightarrow>
          (case map_of d ''name'' of
             Some (JStr n) \<Rightarrow> Inr (lib1\<lparr>lib_id := i, lib_name := n\<rparr>)
           | _ \<Rightarrow> Inl (OtherError ''DaciteError''))
      | _ \<Rightarrow> Inl (OtherError ''DaciteError''))"

text \<open>A server that answers every request with the same outcome.\<close>

definition always :: "http_outcome \<Rightarrow> unit session" where
  "always out w url' hdrs = (out, w)"

text \<open>A server that answers by a table of URLs, and with status 404 elsewhere.\<close>

definition serve :: "(string \<times> http_outcome) list \<Rightarrow> unit session" where
  "serve table w url' hdrs =
     ((case map_of table url' of Some out \<Rightarrow> out | None \<Rightarrow> Response 404 (Inr JNull)), w)"


section \<open>Dictionaries\<close>

lemma update_fresh: "k \<notin> fst ` set d \<Longrightarrow> AList.update k v d = d @ [(k, v)]"
  by (induction d) auto

lemma dict_update_distinct:
  "distinct (map fst (d @ xs)) \<Longrightarrow> dict_update d xs = d @ xs"
proof (induction xs arbitrary: d)
  case Nil
  then show ?case by (simp add: dict_update_def)
next
  case (Cons x xs)
  obtain k v where x: "x = (k, v)" by (cases x)
  from Cons.prems have fresh: "k \<notin> fst ` set d" by (auto simp: x)
  from Cons.prems have "distinct (map fst ((d @ [(k, v)]) @ xs))" by (simp add: x)
  then have "dict_update (d @ [(k, v)]) xs = (d @ [(k, v)]) @ xs" by (rule Cons.IH)
  then show ?case using fresh by (simp add: dict_update_def dict_set_def x update_fresh)
qed


section \<open>Key conversion: properties\<close>

lemma camel_to_snake_id: "\<not> is_container v \<Longrightarrow> camel_to_snake v = v"
  by (cases v) simp_all

lemma camel_to_snake_JObj:
  "camel_to_snake (JObj d) = JObj (dict_update [] (map (\<lambda>(key, value). (convert_key key, camel_to_snake value)) d))"
proof -
  have "(\<lambda>(key, value). (convert_key key, if is_container value then camel_to_snake value else value))
      = (\<lambda>(key, value). (convert_key key, camel_to_snake value))"
    by (auto simp: fun_eq_iff camel_to_snake_id)
  then show ?thesis by simp
qed



lemma lower_not_underscore: "isupper c \<Longrightarrow> lower c \<noteq> CHR ''_''"
  unfolding isupper_def lower_def ascii_uppercase_def ascii_lowercase_def
  by auto





declare camel_to_snake.simps(1,2) [simp del]








section \<open>The count of active users\<close>

lemma is_user_recordD:
  assumes "is_user_record user"
  shows "\<exists>d b n. user = JObj d \<and> map_of d ''isActive'' = Some (JBool b) \<and> map_of d ''username'' = Some (JStr n)"
proof (cases user)
  case (JObj d)
  show ?thesis
  proof (cases "map_of d ''isActive''")
    case None
    with assms JObj show ?thesis by (simp add: is_user_record_def)
  next
    case (Some a)
    show ?thesis
    proof (cases "map_of d ''username''")
      case None
      with assms JObj Some show ?thesis by (cases a) (simp_all add: is_user_record_def)
    next
      case name: (Some n)
      with assms JObj Some show ?thesis
        by (cases a; cases n) (simp_all add: is_user_record_def)
    qed
  qed
qed (use assms in \<open>simp_all add: is_user_record_def\<close>)

lemma count_users_user_records:
  "list_all is_user_record users \<Longrightarrow>
   count_users users count = Inr (count + int (length (filter active_not_hass users)))"
proof (induction users arbitrary: count)
  case Nil
  then show ?case by simp
next
  case (Cons user users)
  from Cons.prems have rest: "list_all is_user_record users" by simp
  from Cons.prems have "is_user_record user" by simp
  then obtain d b n where user: "user = JObj d" "map_of d ''isActive'' = Some (JBool b)"
      "map_of d ''username'' = Some (JStr n)"
    by (blast dest: is_user_recordD)
  show ?case
    using user by (simp add: Cons.IH [OF rest] active_not_hass_def)
qed

text \<open>
  Claim C10. For a payload whose \<open>users\<close> field is a list of user records,
  \<open>count_active_users\<close> returns the number of users whose \<open>isActive\<close> is true and
  whose \<open>username\<close> is not \<open>hass\<close>: an active user named \<open>hass\<close> is left out of
  the count.
\<close>

theorem count_active_users_excludes_hass:
  assumes "map_of data ''users'' = Some (JList users)"
    and "\<forall>user \<in> set users. is_user_record user"
  shows "count_active_users data = Inr (JInt (int (length (filter active_not_hass users))))"
proof -
  from assms(2) have "list_all is_user_record users" by (simp add: list_all_iff)
  then have "count_users users 0 = Inr (0 + int (length (filter active_not_hass users)))"
    by (rule count_users_user_records)
  with assms(1) show ?thesis by (simp add: count_active_users_def)
qed

text \<open>
  Three users, of which \<open>root\<close> and \<open>hass\<close> are active: the count is 1.
\<close>

theorem count_active_users_excludes_hass_witness:
  "count_active_users
     [(''users'', JList
        [JObj [(''username'', JStr ''root''), (''isActive'', JBool True)],
         JObj [(''username'', JStr ''hass''), (''isActive'', JBool True)],
         JObj [(''username'', JStr ''guest''), (''isActive'', JBool False)]])]
   = Inr (JInt 1)"
  using count_active_users_excludes_hass [of
     "[(''users'', JList
        [JObj [(''username'', JStr ''root''), (''isActive'', JBool True)],
         JObj [(''username'', JStr ''hass''), (''isActive'', JBool True)],
         JObj [(''username'', JStr ''guest''), (''isActive'', JBool False)]])]"
     "[JObj [(''username'', JStr ''root''), (''isActive'', JBool True)],
         JObj [(''username'', JStr ''hass''), (''isActive'', JBool True)],
         JObj [(''username'', JStr ''guest''), (''isActive'', JBool False)]]"]
  by (simp add: is_user_record_def active_not_hass_def)


section \<open>The update of a sensor entity\<close>

lemma map_of_Some_nonempty: "map_of data k = Some v \<Longrightarrow> data \<noteq> []"
  by auto

text \<open>
  Claim C1. An update finds an object cached for the entity's endpoint; the attributes
  function returns, and the data function returns \<open>new_state\<close>. Then the update raises
  nothing, and the state afterwards is the previous state when \<open>new_state\<close> is zero or
  \<open>None\<close> and the previous state is neither, and \<open>new_state\<close> in every other case.
  Zero is what Python's \<open>in (0, None)\<close> takes for zero: \<open>0\<close>, \<open>0.0\<close>, \<open>-0.0\<close> and
  \<open>False\<close>.
\<close>

theorem async_update_suppresses_zero:
  assumes "map_of data (self_endpoint self) = Some (JObj endpoint_data)"
    and "self_process_attributes self endpoint_data = Inr (processed_attributes, endpoint_data')"
    and "self_process_data self endpoint_data' = Inr new_state"
  shows "fst (async_update (Some data) self) = None
    \<and> self_state (snd (async_update (Some data) self)) =
        (if in_0_None new_state \<and> \<not> in_0_None (self_state self) then self_state self else new_state)"
proof -
  from assms(1) have "data \<noteq> []" by (rule map_of_Some_nonempty)
  with assms show ?thesis
    by (simp add: async_update_def Let_def)
qed

lemma items_entity_simps:
  "self_endpoint items_entity = ''api/libraries/lib1/stats''"
  "self_process_data items_entity = total_items"
  "self_process_attributes items_entity = do_nothing"
  "self_state items_entity = JNull"
  "self_attr_extra_state_attributes items_entity = []"
  by (simp_all add: items_entity_def sensor_entity_init_def items_sensor_def stats_endpoint_def lib1_def)

text \<open>
  The three cases of the spec, on the item sensor of a library: state 42 and new value 0
  leave 42; state 0 and new value 0 leave 0; state \<open>None\<close> and new value 5 give 5.
\<close>

theorem async_update_suppresses_zero_witness:
  "self_state (snd (async_update (Some [(''api/libraries/lib1/stats'', JObj [(''totalItems'', JInt 0)])])
      (items_entity\<lparr>self_state := JInt 42\<rparr>))) = JInt 42
   \<and> self_state (snd (async_update (Some [(''api/libraries/lib1/stats'', JObj [(''totalItems'', JInt 0)])])
      (items_entity\<lparr>self_state := JInt 0\<rparr>))) = JInt 0
   \<and> self_state (snd (async_update (Some [(''api/libraries/lib1/stats'', JObj [(''totalItems'', JInt 5)])])
      (items_entity\<lparr>self_state := JNull\<rparr>))) = JInt 5"
  using
    async_update_suppresses_zero [of "[(''api/libraries/lib1/stats'', JObj [(''totalItems'', JInt 0)])]"
      "items_entity\<lparr>self_state := JInt 42\<rparr>" "[(''totalItems'', JInt 0)]" "[(''totalItems'', JInt 0)]"
      "[(''totalItems'', JInt 0)]" "JInt 0"]
    async_update_suppresses_zero [of "[(''api/libraries/lib1/stats'', JObj [(''totalItems'', JInt 0)])]"
      "items_entity\<lparr>self_state := JInt 0\<rparr>" "[(''totalItems'', JInt 0)]" "[(''totalItems'', JInt 0)]"
      "[(''totalItems'', JInt 0)]" "JInt 0"]
    async_update_suppresses_zero [of "[(''api/libraries/lib1/stats'', JObj [(''totalItems'', JInt 5)])]"
      "items_entity\<lparr>self_state := JNull\<rparr>" "[(''totalItems'', JInt 5)]" "[(''totalItems'', JInt 5)]"
      "[(''totalItems'', JInt 5)]" "JInt 5"]
  by (simp add: items_entity_simps total_items_def do_nothing_def)

text \<open>
  Claim C3, as the code has it. The update changes nothing and raises nothing when the
  coordinator has no data (\<open>None\<close>, or an empty mapping), and when the value cached for
  the endpoint is not an object. When the data is not empty and has no entry for the
  endpoint, \<open>data.get(self._endpoint, {})\<close> supplies the empty object, and the update is
  the one that a cached empty object gives: the two functions are applied to \<open>{}\<close>.
\<close>

theorem async_update_noop:
  "async_update None self = (None, self)
   \<and> async_update (Some []) self = (None, self)
   \<and> (map_of data (self_endpoint self) = Some v \<and> \<not> is_dict v \<longrightarrow>
        async_update (Some data) self = (None, self))
   \<and> (data \<noteq> [] \<and> map_of data (self_endpoint self) = None \<longrightarrow>
        async_update (Some data) self = async_update (Some [(self_endpoint self, JObj [])]) self)"
proof (intro conjI impI)
  show "async_update None self = (None, self)"
    by (simp add: async_update_def)
  show "async_update (Some []) self = (None, self)"
    by (simp add: async_update_def)
  show "async_update (Some data) self = (None, self)"
    if "map_of data (self_endpoint self) = Some v \<and> \<not> is_dict v"
    using that by (cases v) (auto simp: async_update_def)
  show "async_update (Some data) self = async_update (Some [(self_endpoint self, JObj [])]) self"
    if "data \<noteq> [] \<and> map_of data (self_endpoint self) = None"
    using that by (simp add: async_update_def)
qed

text \<open>
  A list cached for the endpoint leaves the entity as it is; a cache that has another
  endpoint only is treated as one that has \<open>{}\<close> for the entity's endpoint.
\<close>

theorem async_update_noop_witness:
  "async_update (Some [(''api/libraries/lib1/stats'', JList [])]) (items_entity\<lparr>self_state := JInt 7\<rparr>)
     = (None, items_entity\<lparr>self_state := JInt 7\<rparr>)
   \<and> async_update (Some [(''api/users'', JObj [])]) (items_entity\<lparr>self_state := JInt 7\<rparr>)
     = async_update (Some [(''api/libraries/lib1/stats'', JObj [])]) (items_entity\<lparr>self_state := JInt 7\<rparr>)"
  using async_update_noop [of "items_entity\<lparr>self_state := JInt 7\<rparr>"
      "[(''api/libraries/lib1/stats'', JList [])]" "JList []"]
    async_update_noop [of "items_entity\<lparr>self_state := JInt 7\<rparr>"
      "[(''api/users'', JObj [])]" "JNull"]
  by (simp add: items_entity_simps)

text \<open>
  Claim C3 as stated fails. The item sensor of a library takes the state 0 from a payload
  with \<open>totalItems\<close> 0. At the next update the cache has an entry for \<open>api/users\<close> only:
  the data function is applied to \<open>{}\<close>, returns \<open>None\<close>, and since the state is 0 the
  state becomes \<open>None\<close>.
\<close>

theorem async_update_missing_entry_counterexample:
  "map_of [(''api/users'', JObj [(''users'', JList [])])] (self_endpoint items_entity) = None
   \<and> self_state (snd (async_update (Some [(''api/libraries/lib1/stats'', JObj [(''totalItems'', JInt 0)])])
        items_entity)) = JInt 0
   \<and> self_state (snd (async_update (Some [(''api/users'', JObj [(''users'', JList [])])])
        (snd (async_update (Some [(''api/libraries/lib1/stats'', JObj [(''totalItems'', JInt 0)])])
           items_entity)))) = JNull"
  by (simp add: async_update_def items_entity_simps total_items_def do_nothing_def dict_update_def)


section \<open>The connectivity sensor: properties\<close>

lemma coordinator_get_Value:
  "coordinator_get (Value v) =
     (case v of
        JObj d \<Rightarrow>
          (case map_of d ''connectivity'' of
             Some (JObj c) \<Rightarrow> Inr (Value (case map_of c ''success'' of Some s \<Rightarrow> s | None \<Rightarrow> JStr ''''))
           | _ \<Rightarrow> Inl AttributeError)
      | _ \<Rightarrow> Inl AttributeError)"
  by (auto simp: coordinator_get_def split: json.splits option.splits)

lemma is_on_Value:
  "is_on (Value v) =
     Inr (\<exists>d c. v = JObj d \<and> map_of d ''connectivity'' = Some (JObj c) \<and> map_of c ''success'' = Some (JBool True))"
  by (auto simp: is_on_def coordinator_get_Value split: json.splits option.splits)

lemma is_on_raise:
  "coordinator_get data = Inl e \<Longrightarrow>
   is_on data = (if (\<exists>k. e = KeyError k) \<or> e = AttributeError then Inr False else Inl e)"
  by (cases e) (simp_all add: is_on_def)

lemma is_on_return:
  "coordinator_get data = Inr got \<Longrightarrow> is_on data = Inr (got = Value (JBool True))"
  by (auto simp: is_on_def split: pyobj.splits json.splits)

text \<open>
  Claim C8. On JSON data \<open>is_on\<close> returns true exactly when the data is an object whose
  \<open>connectivity\<close> entry is an object whose \<open>success\<close> entry is the boolean true, and
  false otherwise. In general: when the two \<open>get\<close> calls return, the result is whether
  they returned the boolean true; a \<open>KeyError\<close> or an \<open>AttributeError\<close> raised by them
  gives false; any other exception leaves \<open>is_on\<close>.
\<close>

theorem is_on_connectivity:
  "is_on (Value v) =
     Inr (\<exists>d c. v = JObj d \<and> map_of d ''connectivity'' = Some (JObj c) \<and> map_of c ''success'' = Some (JBool True))
   \<and> (coordinator_get data = Inr got \<longrightarrow> is_on data = Inr (got = Value (JBool True)))
   \<and> (coordinator_get data = Inl (KeyError k) \<longrightarrow> is_on data = Inr False)
   \<and> (coordinator_get data = Inl AttributeError \<longrightarrow> is_on data = Inr False)
   \<and> (coordinator_get data = Inl e \<and> (\<forall>k. e \<noteq> KeyError k) \<and> e \<noteq> AttributeError \<longrightarrow> is_on data = Inl e)"
  using is_on_Value [of v] is_on_return [of data got] is_on_raise [of data "KeyError k"]
    is_on_raise [of data AttributeError] is_on_raise [of data e]
  by auto

text \<open>
  The sensor is on for \<open>{"connectivity": {"success": true}}\<close>; off for a \<open>success\<close>
  of 1, for a missing \<open>connectivity\<close>, for \<open>None\<close>, and for objects whose \<open>get\<close> returns
  a boolean or raises \<open>KeyError\<close>; a \<open>RuntimeError\<close> of \<open>get\<close> is raised again.
\<close>

theorem is_on_connectivity_witness:
  "is_on (Value (JObj [(''connectivity'', JObj [(''success'', JBool True)])])) = Inr True
   \<and> is_on (Value (JObj [(''connectivity'', JObj [(''success'', JInt 1)])])) = Inr False
   \<and> is_on (Value (JObj [(''other'', JObj [(''success'', JBool True)])])) = Inr False
   \<and> is_on (Value JNull) = Inr False
   \<and> is_on (Object (\<lambda>key dflt. Inr (Value (JBool True)))) = Inr False
   \<and> is_on (Object (\<lambda>key dflt. Inl (KeyError key))) = Inr False
   \<and> is_on (Object (\<lambda>key dflt. Inl (OtherError ''RuntimeError''))) = Inl (OtherError ''RuntimeError'')"
proof -
  have "coordinator_get (Object (\<lambda>key dflt. Inl (KeyError key))) = Inl (KeyError ''connectivity'')"
    by (simp add: coordinator_get_def)
  then have key: "is_on (Object (\<lambda>key dflt. Inl (KeyError key))) = Inr False"
    using is_on_connectivity [where data = "Object (\<lambda>key dflt. Inl (KeyError key))" and k = "''connectivity''"]
    by blast
  have "coordinator_get (Object (\<lambda>key dflt. Inl (OtherError ''RuntimeError''))) = Inl (OtherError ''RuntimeError'')"
    by (simp add: coordinator_get_def)
  then have other: "is_on (Object (\<lambda>key dflt. Inl (OtherError ''RuntimeError''))) = Inl (OtherError ''RuntimeError'')"
    using is_on_connectivity [where data = "Object (\<lambda>key dflt. Inl (OtherError ''RuntimeError''))"
        and e = "OtherError ''RuntimeError''"]
    by simp
  have "coordinator_get (Value JNull) = Inl AttributeError"
    by (simp add: coordinator_get_def)
  then have none: "is_on (Value JNull) = Inr False"
    using is_on_connectivity [where data = "Value JNull"] by blast
  have "coordinator_get (Object (\<lambda>key dflt. Inr (Value (JBool True)))) = Inl AttributeError"
    by (simp add: coordinator_get_def)
  then have bool: "is_on (Object (\<lambda>key dflt. Inr (Value (JBool True)))) = Inr False"
    using is_on_connectivity [where data = "Object (\<lambda>key dflt. Inr (Value (JBool True)))"] by blast
  have on: "is_on (Value (JObj [(''connectivity'', JObj [(''success'', JBool True)])])) = Inr True"
    using is_on_connectivity [where v = "JObj [(''connectivity'', JObj [(''success'', JBool True)])]"]
    by simp
  have int: "is_on (Value (JObj [(''connectivity'', JObj [(''success'', JInt 1)])])) = Inr False"
    using is_on_connectivity [where v = "JObj [(''connectivity'', JObj [(''success'', JInt 1)])]"]
    by simp
  have missing: "is_on (Value (JObj [(''other'', JObj [(''success'', JBool True)])])) = Inr False"
    using is_on_connectivity [where v = "JObj [(''other'', JObj [(''success'', JBool True)])]"]
    by simp
  from on int missing none bool key other show ?thesis by blast
qed


section \<open>Library discovery: properties\<close>

lemma convert_libraries_all:
  "map (convert_library from_dict) entries = map Inr libraries \<Longrightarrow>
   convert_libraries from_dict entries = Inr libraries"
proof (induction entries arbitrary: libraries)
  case Nil
  then show ?case by simp
next
  case (Cons entry entries)
  then obtain library rest where libraries: "libraries = library # rest"
    by (cases libraries) auto
  with Cons.prems have "convert_library from_dict entry = Inr library"
    and "map (convert_library from_dict) entries = map Inr rest"
    by simp_all
  with Cons.IH [of rest] show ?case by (simp add: libraries)
qed

lemma convert_libraries_first_failure:
  "map (convert_library from_dict) before = map Inr libraries \<Longrightarrow>
   convert_library from_dict entry = Inl e \<Longrightarrow>
   convert_libraries from_dict (before @ entry # after) = Inl e"
proof (induction before arbitrary: libraries)
  case Nil
  then show ?case by simp
next
  case (Cons b before)
  then obtain library rest where libraries: "libraries = library # rest"
    by (cases libraries) auto
  with Cons.prems have "convert_library from_dict b = Inr library"
    and "map (convert_library from_dict) before = map Inr rest"
    by simp_all
  with Cons.IH [of rest] Cons.prems(2) show ?case by simp
qed

lemma get_libraries_eq:
  "get w (url conf @ ''/api/libraries'') (headers conf) = (out, w') \<Longrightarrow>
   get_libraries from_dict get conf w =
     ((case libraries_of_outcome from_dict out of Inl (ClientError e) \<Rightarrow> Inr [] | r \<Rightarrow> r), w')"
  by (simp add: get_libraries_def)

text \<open>
  Claim C7, as the code has it. \<open>get_libraries\<close> returns the empty list when the request
  raises \<open>aiohttp.ClientError\<close> and when the status is not 200. On a 200 response whose
  body is an object it returns the empty list when there is no \<open>libraries\<close> entry, and,
  when \<open>libraries\<close> is a list of which every entry converts
  (\<open>from_dict(data_class=Library, data=dict(camel_to_snake(lib)))\<close> returns), the list of
  the converted entries: one record per entry, in the order of the entries. When an entry
  does not convert, the exception of the first such entry leaves \<open>get_libraries\<close>
  (unless it is an \<open>aiohttp.ClientError\<close>).
\<close>

theorem get_libraries_outcomes:
  assumes "get w (url conf @ ''/api/libraries'') (headers conf) = (out, w')"
  shows "(failed out \<longrightarrow> get_libraries from_dict get conf w = (Inr [], w'))
    \<and> (\<forall>data. out = Response HTTP_OK (Inr (JObj data)) \<and> map_of data ''libraries'' = None \<longrightarrow>
          get_libraries from_dict get conf w = (Inr [], w'))
    \<and> (\<forall>data entries libraries.
          out = Response HTTP_OK (Inr (JObj data)) \<and> map_of data ''libraries'' = Some (JList entries)
          \<and> map (convert_library from_dict) entries = map Inr libraries \<longrightarrow>
          get_libraries from_dict get conf w = (Inr libraries, w') \<and> length libraries = length entries)
    \<and> (\<forall>data before entry after libraries e.
          out = Response HTTP_OK (Inr (JObj data))
          \<and> map_of data ''libraries'' = Some (JList (before @ entry # after))
          \<and> map (convert_library from_dict) before = map Inr libraries
          \<and> convert_library from_dict entry = Inl e \<and> (\<forall>msg. e \<noteq> ClientError msg) \<longrightarrow>
          get_libraries from_dict get conf w = (Inl e, w'))"
proof (intro conjI allI impI)
  note eq = get_libraries_eq [where get = get and w = w and conf = conf, OF assms, of from_dict]
  show "get_libraries from_dict get conf w = (Inr [], w')" if "failed out"
  proof (cases out)
    case (Raises e)
    with that obtain msg where "e = ClientError msg" by (cases e) auto
    with Raises show ?thesis by (simp add: eq libraries_of_outcome_def)
  next
    case (Response status body)
    with that show ?thesis by (simp add: eq libraries_of_outcome_def)
  qed
  show "get_libraries from_dict get conf w = (Inr [], w')"
    if "out = Response HTTP_OK (Inr (JObj data)) \<and> map_of data ''libraries'' = None" for data
    using that by (simp add: eq libraries_of_outcome_def)
  fix data entries libraries
  assume ok: "out = Response HTTP_OK (Inr (JObj data)) \<and> map_of data ''libraries'' = Some (JList entries)
          \<and> map (convert_library from_dict) entries = map Inr libraries"
  then have "convert_libraries from_dict entries = Inr libraries"
    by (simp add: convert_libraries_all)
  with ok show "get_libraries from_dict get conf w = (Inr libraries, w')"
    by (simp add: eq libraries_of_outcome_def)
  from ok have "map (convert_library from_dict) entries = map Inr libraries" by simp
  then show "length libraries = length entries" by (rule map_eq_imp_length_eq [symmetric])
next
  note eq = get_libraries_eq [where get = get and w = w and conf = conf, OF assms, of from_dict]
  fix data before entry after e libraries
  assume bad: "out = Response HTTP_OK (Inr (JObj data))
          \<and> map_of data ''libraries'' = Some (JList (before @ entry # after))
          \<and> map (convert_library from_dict) before = map Inr libraries
          \<and> convert_library from_dict entry = Inl e \<and> (\<forall>msg. e \<noteq> ClientError msg)"
  then have "convert_libraries from_dict (before @ entry # after) = Inl e"
    by (simp add: convert_libraries_first_failure)
  with bad show "get_libraries from_dict get conf w = (Inl e, w')"
    by (cases e) (simp_all add: eq libraries_of_outcome_def)
qed

lemma camel_to_snake_library_example:
  "camel_to_snake (JObj [(''id'', JStr ''lib1''), (''name'', JStr ''Books''), (''mediaType'', JStr ''book'')])
   = JObj [(''id'', JStr ''lib1''), (''name'', JStr ''Books''), (''media_type'', JStr ''book'')]"
  by (simp add: camel_to_snake_JObj convert_key_def lstrip_def isupper_def lower_def
      ascii_uppercase_def ascii_lowercase_def dict_update_def dict_set_def)

lemma example_from_dict_lib1:
  "example_from_dict [(''id'', JStr ''lib1''), (''name'', JStr ''Books''), (''media_type'', JStr ''book'')] = Inr lib1"
  by (simp add: example_from_dict_def lib1_def)

lemma convert_library_example:
  "convert_library example_from_dict
     (JObj [(''id'', JStr ''lib1''), (''name'', JStr ''Books''), (''mediaType'', JStr ''book'')]) = Inr lib1"
  "convert_library example_from_dict JNull = Inl TypeError"
  by (simp_all add: convert_library_def camel_to_snake_library_example example_from_dict_lib1)

lemma always_request: "always out () u h = (out, ())"
  by (simp add: always_def)

text \<open>
  Status 500 and a refused connection give \<open>[]\<close>; a 200 response with one library
  gives one record; with a second entry \<open>null\<close>, \<open>dict(None)\<close> raises \<open>TypeError\<close>.
\<close>

theorem get_libraries_outcomes_witness:
  "get_libraries example_from_dict (always (Response 500 (Inr JNull))) example_conf () = (Inr [], ())
   \<and> get_libraries example_from_dict (always (Raises (ClientError ''connection refused''))) example_conf ()
       = (Inr [], ())
   \<and> get_libraries example_from_dict
       (always (Response 200 (Inr (JObj [(''libraries'',
          JList [JObj [(''id'', JStr ''lib1''), (''name'', JStr ''Books''), (''mediaType'', JStr ''book'')]])]))))
       example_conf () = (Inr [lib1], ())
   \<and> get_libraries example_from_dict
       (always (Response 200 (Inr (JObj [(''libraries'',
          JList [JObj [(''id'', JStr ''lib1''), (''name'', JStr ''Books''), (''mediaType'', JStr ''book'')], JNull])]))))
       example_conf () = (Inl TypeError, ())"
proof -
  let ?entry = "JObj [(''id'', JStr ''lib1''), (''name'', JStr ''Books''), (''mediaType'', JStr ''book'')]"
  let ?one = "Response 200 (Inr (JObj [(''libraries'', JList [?entry])]))"
  let ?two = "Response 200 (Inr (JObj [(''libraries'', JList [?entry, JNull])]))"
  have "failed (Response 500 (Inr JNull))" by (simp add: HTTP_OK_def)
  with get_libraries_outcomes [where get = "always (Response 500 (Inr JNull))" and from_dict = example_from_dict,
      OF always_request]
  have a: "get_libraries example_from_dict (always (Response 500 (Inr JNull))) example_conf () = (Inr [], ())"
    by blast
  have "failed (Raises (ClientError ''connection refused''))" by simp
  with get_libraries_outcomes [where get = "always (Raises (ClientError ''connection refused''))"
      and from_dict = example_from_dict, OF always_request]
  have b: "get_libraries example_from_dict (always (Raises (ClientError ''connection refused''))) example_conf ()
       = (Inr [], ())"
    by blast
  have one: "?one = Response HTTP_OK (Inr (JObj [(''libraries'', JList [?entry])]))
      \<and> map_of [(''libraries'', JList [?entry])] ''libraries'' = Some (JList [?entry])
      \<and> map (convert_library example_from_dict) [?entry] = map Inr [lib1]"
    by (simp add: HTTP_OK_def convert_library_example)
  with get_libraries_outcomes [where get = "always ?one" and from_dict = example_from_dict, OF always_request]
  have c: "get_libraries example_from_dict (always ?one) example_conf () = (Inr [lib1], ())"
    by blast
  have two: "?two = Response HTTP_OK (Inr (JObj [(''libraries'', JList [?entry, JNull])]))
      \<and> map_of [(''libraries'', JList [?entry, JNull])] ''libraries'' = Some (JList ([?entry] @ JNull # []))
      \<and> map (convert_library example_from_dict) [?entry] = map Inr [lib1]
      \<and> convert_library example_from_dict JNull = Inl TypeError \<and> (\<forall>msg. TypeError \<noteq> ClientError msg)"
    by (simp add: HTTP_OK_def convert_library_example)
  with get_libraries_outcomes [where get = "always ?two" and from_dict = example_from_dict, OF always_request]
  have d: "get_libraries example_from_dict (always ?two) example_conf () = (Inl TypeError, ())"
    by blast
  from a b c d show ?thesis by blast
qed

text \<open>
  Claim C7 as stated fails: on the 200 response \<open>{"libraries": [null]}\<close> the function
  returns no list, it raises \<open>TypeError\<close>.
\<close>

theorem get_libraries_raises_counterexample:
  "get_libraries example_from_dict
     (always (Response 200 (Inr (JObj [(''libraries'', JList [JNull])])))) example_conf ()
   = (Inl TypeError, ())"
  by (simp add: get_libraries_def always_def libraries_of_outcome_def HTTP_OK_def convert_library_def)


section \<open>The refresh cycle: properties\<close>

lemma response_data_Inr:
  "response_data ep out = Inr doc \<longleftrightarrow> out = Response HTTP_OK (Inr doc)"
  by (auto simp: response_data_def split: http_outcome.splits sum.splits if_splits)

lemma response_data_failed:
  "failed out \<Longrightarrow> \<exists>c. response_data ep out = Inl (UpdateFailed ep c)"
  by (cases out rule: failed.cases) (simp_all add: response_data_def reraise_def)

lemma fetch_Cons_success:
  "get w (endpoint_url conf ep) (headers conf) = (Response HTTP_OK (Inr doc), w1) \<Longrightarrow>
   fetch_endpoints get conf (ep # eps) data issued w =
     fetch_endpoints get conf eps (dict_set ep doc data) (issued @ [(ep, Response HTTP_OK (Inr doc))]) w1"
  by (simp add: response_data_def)

lemma fetch_Cons_failure:
  assumes "get w (endpoint_url conf ep) (headers conf) = (out, w1)"
    and "\<nexists>doc. out = Response HTTP_OK (Inr doc)"
  shows "\<exists>e. (\<forall>issued. fetch_endpoints get conf (ep # eps) data issued w = (Inl e, issued @ [(ep, out)], w1))
            \<and> (failed out \<longrightarrow> (\<exists>c. e = UpdateFailed ep c))"
proof (cases "response_data ep out")
  case (Inl e)
  have "\<forall>issued. fetch_endpoints get conf (ep # eps) data issued w = (Inl e, issued @ [(ep, out)], w1)"
    using assms(1) Inl by simp
  moreover have "failed out \<longrightarrow> (\<exists>c. e = UpdateFailed ep c)"
    using response_data_failed [of out ep] Inl by auto
  ultimately show ?thesis by blast
next
  case (Inr doc)
  with assms(2) show ?thesis by (simp add: response_data_Inr)
qed

declare fetch_endpoints.simps(2) [simp del]

lemma fetch_endpoints_issued:
  "fetch_endpoints get conf eps data issued w =
     (case fetch_endpoints get conf eps data [] w of (r, new, w') \<Rightarrow> (r, issued @ new, w'))"
proof (induction eps arbitrary: data issued w)
  case Nil
  show ?case by simp
next
  case (Cons ep eps)
  obtain out w1 where get: "get w (endpoint_url conf ep) (headers conf) = (out, w1)"
    by (cases "get w (endpoint_url conf ep) (headers conf)")
  show ?case
  proof (cases "\<exists>doc. out = Response HTTP_OK (Inr doc)")
    case True
    then obtain doc where out: "out = Response HTTP_OK (Inr doc)" by blast
    obtain r new w' where rest: "fetch_endpoints get conf eps (dict_set ep doc data) [] w1 = (r, new, w')"
      by (cases "fetch_endpoints get conf eps (dict_set ep doc data) [] w1")
    have "fetch_endpoints get conf (ep # eps) data issued w = (r, (issued @ [(ep, out)]) @ new, w')"
      using Cons.IH [of "dict_set ep doc data" "issued @ [(ep, out)]" w1]
      using get by (simp add: fetch_Cons_success rest out)
    moreover have "fetch_endpoints get conf (ep # eps) data [] w = (r, ([] @ [(ep, out)]) @ new, w')"
      using Cons.IH [of "dict_set ep doc data" "[] @ [(ep, out)]" w1]
      using get by (simp add: fetch_Cons_success rest out)
    ultimately show ?thesis by simp
  next
    case False
    from fetch_Cons_failure [where get = get and w = w and conf = conf and ep = ep
        and eps = eps and data = data, OF get False]
    obtain e where "\<forall>issued. fetch_endpoints get conf (ep # eps) data issued w = (Inl e, issued @ [(ep, out)], w1)"
      by blast
    then show ?thesis by simp
  qed
qed

lemma fetch_step_success:
  assumes "get w (endpoint_url conf ep) (headers conf) = (Response HTTP_OK (Inr doc), w1)"
    and "fetch_endpoints get conf eps (dict_set ep doc data) [] w1 = (r, new, w')"
  shows "fetch_endpoints get conf (ep # eps) data [] w = (r, (ep, Response HTTP_OK (Inr doc)) # new, w')"
proof -
  have "fetch_endpoints get conf (ep # eps) data [] w =
      fetch_endpoints get conf eps (dict_set ep doc data) [(ep, Response HTTP_OK (Inr doc))] w1"
    using assms(1) by (simp add: fetch_Cons_success)
  also have "\<dots> = (r, [(ep, Response HTTP_OK (Inr doc))] @ new, w')"
    by (subst fetch_endpoints_issued) (simp add: assms(2))
  finally show ?thesis by simp
qed

lemma fetch_step_failure:
  assumes "get w (endpoint_url conf ep) (headers conf) = (out, w1)"
    and "\<nexists>doc. out = Response HTTP_OK (Inr doc)"
  shows "\<exists>e. fetch_endpoints get conf (ep # eps) data [] w = (Inl e, [(ep, out)], w1)
            \<and> (failed out \<longrightarrow> (\<exists>c. e = UpdateFailed ep c))"
  using fetch_Cons_failure [where get = get and w = w and conf = conf and ep = ep
      and eps = eps and data = data, OF assms] by auto

lemma fetch_endpoints_run:
  assumes "fetch_endpoints get conf eps data [] w = (result, new, w')"
  shows "(\<exists>rest. eps = map fst new @ rest)
    \<and> (\<forall>d. result = Inr d \<longrightarrow>
          (\<exists>docs. length docs = length eps
             \<and> new = map (\<lambda>(ep, doc). (ep, Response HTTP_OK (Inr doc))) (zip eps docs)
             \<and> d = dict_update data (zip eps docs)))
    \<and> ((\<exists>request \<in> set new. failed (snd request)) \<longrightarrow> (\<exists>ep c. result = Inl (UpdateFailed ep c)))
    \<and> (\<forall>e. result = Inl e \<longrightarrow> new \<noteq> [] \<and> (\<nexists>doc. snd (last new) = Response HTTP_OK (Inr doc)))
    \<and> (\<forall>request \<in> set (butlast new). \<exists>doc. snd request = Response HTTP_OK (Inr doc))"
  using assms
proof (induction eps arbitrary: data w result new w')
  case Nil
  then show ?case by (auto simp: dict_update_def)
next
  case (Cons ep eps)
  obtain out w1 where get: "get w (endpoint_url conf ep) (headers conf) = (out, w1)"
    by (cases "get w (endpoint_url conf ep) (headers conf)")
  show ?case
  proof (cases "\<exists>doc. out = Response HTTP_OK (Inr doc)")
    case True
    then obtain doc where out: "out = Response HTTP_OK (Inr doc)" by blast
    obtain r new1 w2 where rest: "fetch_endpoints get conf eps (dict_set ep doc data) [] w1 = (r, new1, w2)"
      by (cases "fetch_endpoints get conf eps (dict_set ep doc data) [] w1")
    from fetch_step_success [where get = get and w = w and conf = conf and ep = ep and eps = eps
        and data = data, OF get [unfolded out] rest] Cons.prems
    have res: "result = r" "new = (ep, Response HTTP_OK (Inr doc)) # new1" "w' = w2"
      by simp_all
    note IH = Cons.IH [OF rest]
    have 1: "\<exists>rest. ep # eps = map fst new @ rest"
      using IH by (auto simp: res)
    have 2: "\<forall>d. result = Inr d \<longrightarrow>
          (\<exists>docs. length docs = length (ep # eps)
             \<and> new = map (\<lambda>(ep, doc). (ep, Response HTTP_OK (Inr doc))) (zip (ep # eps) docs)
             \<and> d = dict_update data (zip (ep # eps) docs))"
    proof (intro allI impI)
      fix d assume "result = Inr d"
      with IH res obtain docs where docs: "length docs = length eps"
          "new1 = map (\<lambda>(ep, doc). (ep, Response HTTP_OK (Inr doc))) (zip eps docs)"
          "d = dict_update (dict_set ep doc data) (zip eps docs)"
        by blast
      have "length (doc # docs) = length (ep # eps)
             \<and> new = map (\<lambda>(ep, doc). (ep, Response HTTP_OK (Inr doc))) (zip (ep # eps) (doc # docs))
             \<and> d = dict_update data (zip (ep # eps) (doc # docs))"
        using docs by (simp add: res dict_update_def)
      then show "\<exists>docs. length docs = length (ep # eps)
             \<and> new = map (\<lambda>(ep, doc). (ep, Response HTTP_OK (Inr doc))) (zip (ep # eps) docs)
             \<and> d = dict_update data (zip (ep # eps) docs)"
        by blast
    qed
    have 3: "(\<exists>request \<in> set new. failed (snd request)) \<longrightarrow> (\<exists>ep c. result = Inl (UpdateFailed ep c))"
      using IH by (auto simp: res)
    have 4: "\<forall>e. result = Inl e \<longrightarrow> new \<noteq> [] \<and> (\<nexists>doc. snd (last new) = Response HTTP_OK (Inr doc))"
      using IH by (auto simp: res)
    have 5: "\<forall>request \<in> set (butlast new). \<exists>doc. snd request = Response HTTP_OK (Inr doc)"
      using IH by (auto simp: res)
    from 1 2 3 4 5 show ?thesis by blast
  next
    case False
    from fetch_step_failure [where get = get and w = w and conf = conf and ep = ep and eps = eps
        and data = data, OF get False] Cons.prems
    obtain e where "result = Inl e" "new = [(ep, out)]" "failed out \<longrightarrow> (\<exists>c. e = UpdateFailed ep c)"
      by auto
    with False show ?thesis by auto
  qed
qed



text \<open>
  Claim C2. In a refresh cycle over the distinct endpoints \<open>order\<close>: if any request of
  the cycle raised \<open>aiohttp.ClientError\<close> or was answered with a status other than 200,
  the cycle raises \<open>UpdateFailed\<close> and returns no mapping. If the cycle returns a
  mapping, every endpoint was requested and answered with status 200 and a document, and
  the mapping has exactly one entry per endpoint, the document of this cycle's answer:
  it is built from an empty dict and holds nothing of an earlier cycle. A cycle that
  raises has issued a request, and its last request is the one that did not succeed.
\<close>

theorem async_update_data_all_or_nothing:
  assumes "async_update_data get conf order w = (result, issued, w')" and "distinct order"
  shows "((\<exists>request \<in> set issued. failed (snd request)) \<longrightarrow> (\<exists>ep c. result = Inl (UpdateFailed ep c)))
    \<and> (\<forall>data. result = Inr data \<longrightarrow>
          (\<exists>docs. length docs = length order \<and> data = zip order docs
             \<and> issued = map (\<lambda>(ep, doc). (ep, Response HTTP_OK (Inr doc))) (zip order docs)))
    \<and> (\<forall>e. result = Inl e \<longrightarrow> issued \<noteq> [] \<and> (\<nexists>doc. snd (last issued) = Response HTTP_OK (Inr doc)))"
proof -
  from assms(1) have run: "fetch_endpoints get conf order [] [] w = (result, issued, w')"
    by (simp add: async_update_data_def)
  note inv = fetch_endpoints_run [OF run]
  have "\<exists>docs. length docs = length order \<and> data = zip order docs
             \<and> issued = map (\<lambda>(ep, doc). (ep, Response HTTP_OK (Inr doc))) (zip order docs)"
    if "result = Inr data" for data
  proof -
    from inv that obtain docs where docs: "length docs = length order"
        "issued = map (\<lambda>(ep, doc). (ep, Response HTTP_OK (Inr doc))) (zip order docs)"
        "data = dict_update [] (zip order docs)"
      by blast
    from docs(1) assms(2) have "distinct (map fst ([] @ zip order docs))" by simp
    then have "dict_update [] (zip order docs) = [] @ zip order docs" by (rule dict_update_distinct)
    with docs show ?thesis by auto
  qed
  with inv show ?thesis by blast
qed


lemma fetch_Cons:
  "fetch_endpoints get conf (ep # eps) data issued w =
     (case get w (endpoint_url conf ep) (headers conf) of
        (out, w') \<Rightarrow>
          (case response_data ep out of
             Inl e \<Rightarrow> (Inl e, issued @ [(ep, out)], w')
           | Inr document \<Rightarrow>
               fetch_endpoints get conf eps (dict_set ep document data) (issued @ [(ep, out)]) w'))"
  by (simp add: fetch_endpoints.simps)






lemma example_urls:
  "endpoint_url example_conf ''api/users'' = ''http://abs.local/api/users''"
  "endpoint_url example_conf ''api/libraries'' = ''http://abs.local/api/libraries''"
  by (simp_all add: endpoint_url_def example_conf_def)


lemma run_two_ok:
  "async_update_data
     (serve [(''http://abs.local/api/users'', Response 200 (Inr (JObj [(''users'', JList [])]))),
             (''http://abs.local/api/libraries'', Response 200 (Inr (JObj [(''libraries'', JList [])])))])
     example_conf [''api/users'', ''api/libraries''] ()
   = (Inr [(''api/users'', JObj [(''users'', JList [])]), (''api/libraries'', JObj [(''libraries'', JList [])])],
      [(''api/users'', Response 200 (Inr (JObj [(''users'', JList [])]))),
       (''api/libraries'', Response 200 (Inr (JObj [(''libraries'', JList [])])))], ())"
  by (simp add: async_update_data_def fetch_Cons example_urls serve_def response_data_def HTTP_OK_def
      dict_set_def)

lemma run_two_failed:
  "async_update_data
     (serve [(''http://abs.local/api/users'', Response 200 (Inr (JObj [(''users'', JList [])]))),
             (''http://abs.local/api/libraries'', Response 500 (Inr JNull))])
     example_conf [''api/users'', ''api/libraries''] ()
   = (Inl (UpdateFailed ''api/libraries'' (Status 500)),
      [(''api/users'', Response 200 (Inr (JObj [(''users'', JList [])]))),
       (''api/libraries'', Response 500 (Inr JNull))], ())"
  by (simp add: async_update_data_def fetch_Cons example_urls serve_def response_data_def HTTP_OK_def
      dict_set_def)


text \<open>
  Two endpoints. When the second is answered with status 500 the cycle raises
  \<open>UpdateFailed\<close> for it, although the first has been fetched; when both are answered
  with status 200 the cycle returns the two documents.
\<close>

theorem async_update_data_all_or_nothing_witness:
  "distinct [''api/users'', ''api/libraries'']
   \<and> fst (async_update_data
       (serve [(''http://abs.local/api/users'', Response 200 (Inr (JObj [(''users'', JList [])]))),
               (''http://abs.local/api/libraries'', Response 500 (Inr JNull))])
       example_conf [''api/users'', ''api/libraries''] ())
      = Inl (UpdateFailed ''api/libraries'' (Status 500))
   \<and> fst (async_update_data
       (serve [(''http://abs.local/api/users'', Response 200 (Inr (JObj [(''users'', JList [])]))),
               (''http://abs.local/api/libraries'', Response 200 (Inr (JObj [(''libraries'', JList [])])))])
       example_conf [''api/users'', ''api/libraries''] ())
      = Inr [(''api/users'', JObj [(''users'', JList [])]), (''api/libraries'', JObj [(''libraries'', JList [])])]
   \<and> (\<exists>docs. length docs = length [''api/users'', ''api/libraries'']
         \<and> [(''api/users'', JObj [(''users'', JList [])]), (''api/libraries'', JObj [(''libraries'', JList [])])]
             = zip [''api/users'', ''api/libraries''] docs)
   \<and> (\<exists>ep c. (Inl (UpdateFailed ''api/libraries'' (Status 500)) :: exn + dict) = Inl (UpdateFailed ep c))"
proof -
  have d: "distinct [''api/users'', ''api/libraries'']" by simp
  have "failed (snd (''api/libraries'', Response 500 (Inr JNull)))" by (simp add: HTTP_OK_def)
  with async_update_data_all_or_nothing [OF run_two_failed d]
  have failed: "\<exists>ep c. (Inl (UpdateFailed ''api/libraries'' (Status 500)) :: exn + dict) = Inl (UpdateFailed ep c)"
    by blast
  from async_update_data_all_or_nothing [OF run_two_ok d]
  have ok: "\<exists>docs. length docs = length [''api/users'', ''api/libraries'']
         \<and> [(''api/users'', JObj [(''users'', JList [])]), (''api/libraries'', JObj [(''libraries'', JList [])])]
             = zip [''api/users'', ''api/libraries''] docs"
    by blast
  have 1: "fst (async_update_data
       (serve [(''http://abs.local/api/users'', Response 200 (Inr (JObj [(''users'', JList [])]))),
               (''http://abs.local/api/libraries'', Response 500 (Inr JNull))])
       example_conf [''api/users'', ''api/libraries''] ())
      = Inl (UpdateFailed ''api/libraries'' (Status 500))"
    by (simp only: run_two_failed fst_conv)
  have 2: "fst (async_update_data
       (serve [(''http://abs.local/api/users'', Response 200 (Inr (JObj [(''users'', JList [])]))),
               (''http://abs.local/api/libraries'', Response 200 (Inr (JObj [(''libraries'', JList [])])))])
       example_conf [''api/users'', ''api/libraries''] ())
      = Inr [(''api/users'', JObj [(''users'', JList [])]), (''api/libraries'', JObj [(''libraries'', JList [])])]"
    by (simp only: run_two_ok fst_conv)
  from d 1 2 ok failed show ?thesis by (intro conjI)
qed






section \<open>The registry: properties\<close>

lemma keys_dict_set: "fst ` set (dict_set k v d) = insert k (fst ` set d)"
  by (simp add: dict_set_def dom_update)

lemma keys_dict_update: "fst ` set (dict_update d other) = fst ` set d \<union> fst ` set other"
  unfolding dict_update_def
proof (induction other arbitrary: d)
  case Nil
  show ?case by simp
next
  case (Cons x other)
  obtain k v where x: "x = (k, v)" by (cases x)
  show ?case by (simp add: x Cons.IH keys_dict_set)
qed

lemma distinct_dict_update: "distinct (map fst d) \<Longrightarrow> distinct (map fst (dict_update d other))"
  unfolding dict_update_def
  by (induction other arbitrary: d) (auto simp: dict_set_def distinct_update)

lemma map_fst_update_present: "k \<in> fst ` set d \<Longrightarrow> map fst (AList.update k v d) = map fst d"
  by (induction d) auto

lemma map_fst_dict_update_present:
  "fst ` set other \<subseteq> fst ` set d \<Longrightarrow> map fst (dict_update d other) = map fst d"
  unfolding dict_update_def
proof (induction other arbitrary: d)
  case Nil
  show ?case by simp
next
  case (Cons x other)
  obtain k v where x: "x = (k, v)" by (cases x)
  from Cons.prems have k: "k \<in> fst ` set d" and rest: "fst ` set other \<subseteq> fst ` set d"
    by (auto simp: x)
  have keys: "map fst (dict_set k v d) = map fst d"
    using k by (simp add: dict_set_def map_fst_update_present)
  then have "fst ` set (dict_set k v d) = fst ` set d"
    by (metis list.set_map)
  with rest Cons.IH [of "dict_set k v d"] keys show ?case
    by (simp add: x)
qed

lemma map_of_dict_set: "map_of (dict_set k v d) = (map_of d)(k \<mapsto> v)"
  by (simp add: dict_set_def update_conv')

lemma map_of_dict_update_other:
  "k \<notin> fst ` set other \<Longrightarrow> map_of (dict_update d other) k = map_of d k"
  unfolding dict_update_def
  by (induction other arbitrary: d) (auto simp: map_of_dict_set)

lemma map_of_library_sensors:
  "map_of (dict_update d (library_sensors l)) (base_id l @ ''_size'') = Some (size_sensor l)"
  "map_of (dict_update d (library_sensors l)) (base_id l @ ''_items'') = Some (items_sensor l)"
  "map_of (dict_update d (library_sensors l)) (base_id l @ ''_duration'') = Some (duration_sensor l)"
  by (simp_all add: dict_update_def library_sensors_def map_of_dict_set)

lemma library_keys_eq:
  "library_keys l = {base_id l @ ''_size'', base_id l @ ''_items'', base_id l @ ''_duration''}"
  by (simp add: library_keys_def library_sensors_def)

lemma suffixes_differ:
  "xs @ ''_size'' \<noteq> ys @ ''_items''" "xs @ ''_size'' \<noteq> ys @ ''_duration''"
  "xs @ ''_items'' \<noteq> ys @ ''_duration''"
  "xs @ ''_items'' \<noteq> ys @ ''_size''" "xs @ ''_duration'' \<noteq> ys @ ''_size''"
  "xs @ ''_duration'' \<noteq> ys @ ''_items''"
proof -
  have "last (xs @ ''_size'') \<noteq> last (ys @ ''_items'')" by simp
  then show "xs @ ''_size'' \<noteq> ys @ ''_items''" by (rule contrapos_nn) (rule arg_cong)
  have "last (xs @ ''_size'') \<noteq> last (ys @ ''_duration'')" by simp
  then show "xs @ ''_size'' \<noteq> ys @ ''_duration''" by (rule contrapos_nn) (rule arg_cong)
  have "last (xs @ ''_items'') \<noteq> last (ys @ ''_duration'')" by simp
  then show "xs @ ''_items'' \<noteq> ys @ ''_duration''" by (rule contrapos_nn) (rule arg_cong)
  have "last (xs @ ''_items'') \<noteq> last (ys @ ''_size'')" by simp
  then show "xs @ ''_items'' \<noteq> ys @ ''_size''" by (rule contrapos_nn) (rule arg_cong)
  have "last (xs @ ''_duration'') \<noteq> last (ys @ ''_size'')" by simp
  then show "xs @ ''_duration'' \<noteq> ys @ ''_size''" by (rule contrapos_nn) (rule arg_cong)
  have "last (xs @ ''_duration'') \<noteq> last (ys @ ''_items'')" by simp
  then show "xs @ ''_duration'' \<noteq> ys @ ''_items''" by (rule contrapos_nn) (rule arg_cong)
qed

lemma base_id_eq: "base_id l = base_id l' \<longleftrightarrow> lib_id l = lib_id l'"
  by (simp add: base_id_def)

lemma library_keys_same: "lib_id l = lib_id l' \<Longrightarrow> library_keys l = library_keys l'"
  by (simp add: library_keys_eq base_id_def)


lemma library_keys_disjoint: "lib_id l \<noteq> lib_id l' \<Longrightarrow> library_keys l \<inter> library_keys l' = {}"
  by (simp add: library_keys_eq suffixes_differ base_id_eq)

lemma card_library_keys: "card (library_keys l) = 3"
  by (simp add: library_keys_eq suffixes_differ)

lemma keys_library_sensors: "fst ` set (library_sensors l) = library_keys l"
  by (simp add: library_keys_def)

lemma keys_generate:
  "fst ` set (generate_library_sensors registry libraries) =
     fst ` set registry \<union> (\<Union>library \<in> set libraries. library_keys library)"
  by (induction libraries arbitrary: registry)
    (simp_all add: keys_dict_update keys_library_sensors Un_assoc)

lemma distinct_generate:
  "distinct (map fst registry) \<Longrightarrow> distinct (map fst (generate_library_sensors registry libraries))"
  by (induction libraries arbitrary: registry) (simp_all add: distinct_dict_update)

lemma map_of_generate_other:
  "k \<notin> (\<Union>library \<in> set libraries. library_keys library) \<Longrightarrow>
   map_of (generate_library_sensors registry libraries) k = map_of registry k"
  by (induction libraries arbitrary: registry)
    (simp_all add: map_of_dict_update_other keys_library_sensors)

lemma map_fst_generate_present:
  "(\<Union>library \<in> set libraries. library_keys library) \<subseteq> fst ` set registry \<Longrightarrow>
   map fst (generate_library_sensors registry libraries) = map fst registry"
proof (induction libraries arbitrary: registry)
  case Nil
  show ?case by simp
next
  case (Cons l libraries)
  from Cons.prems have l: "fst ` set (library_sensors l) \<subseteq> fst ` set registry"
    by (simp add: keys_library_sensors)
  then have keys: "map fst (dict_update registry (library_sensors l)) = map fst registry"
    by (rule map_fst_dict_update_present)
  then have "fst ` set (dict_update registry (library_sensors l)) = fst ` set registry"
    by (metis list.set_map)
  with Cons.prems have "(\<Union>library \<in> set libraries. library_keys library)
      \<subseteq> fst ` set (dict_update registry (library_sensors l))"
    by simp
  then have "map fst (generate_library_sensors (dict_update registry (library_sensors l)) libraries)
      = map fst (dict_update registry (library_sensors l))"
    by (rule Cons.IH)
  with keys show ?case by simp
qed

lemma library_keys_other:
  assumes "k \<in> library_keys l0" and "\<forall>later \<in> set libraries. lib_id later \<noteq> lib_id l0"
  shows "k \<notin> (\<Union>library \<in> set libraries. library_keys library)"
proof
  assume "k \<in> (\<Union>library \<in> set libraries. library_keys library)"
  then obtain later where later: "later \<in> set libraries" "k \<in> library_keys later" by blast
  with assms(2) have "lib_id l0 \<noteq> lib_id later" by metis
  then have "library_keys l0 \<inter> library_keys later = {}" by (rule library_keys_disjoint)
  with assms(1) later(2) show False by blast
qed

lemma map_of_generate_library:
  assumes "library \<in> set libraries"
  shows "\<exists>l \<in> set libraries. lib_id l = lib_id library
    \<and> map_of (generate_library_sensors registry libraries) (base_id library @ ''_size'') = Some (size_sensor l)
    \<and> map_of (generate_library_sensors registry libraries) (base_id library @ ''_items'') = Some (items_sensor l)
    \<and> map_of (generate_library_sensors registry libraries) (base_id library @ ''_duration'') = Some (duration_sensor l)"
  using assms
proof (induction libraries arbitrary: registry library)
  case Nil
  then show ?case by simp
next
  case (Cons l0 libraries)
  let ?r1 = "dict_update registry (library_sensors l0)"
  have gen: "generate_library_sensors registry (l0 # libraries) = generate_library_sensors ?r1 libraries"
    by simp
  show ?case
  proof (cases "\<exists>later \<in> set libraries. lib_id later = lib_id library")
    case True
    then obtain later where later: "later \<in> set libraries" "lib_id later = lib_id library" by blast
    from Cons.IH [OF later(1), of ?r1] obtain l where l: "l \<in> set libraries" "lib_id l = lib_id later"
      "map_of (generate_library_sensors ?r1 libraries) (base_id later @ ''_size'') = Some (size_sensor l)"
      "map_of (generate_library_sensors ?r1 libraries) (base_id later @ ''_items'') = Some (items_sensor l)"
      "map_of (generate_library_sensors ?r1 libraries) (base_id later @ ''_duration'') = Some (duration_sensor l)"
      by blast
    from later(2) have base: "base_id later = base_id library" by (simp add: base_id_def)
    from l(1) have mem: "l \<in> set (l0 # libraries)" by simp
    from l(2) later(2) have id: "lib_id l = lib_id library" by simp
    show ?thesis
      using id l(3,4,5) unfolding gen base by (intro bexI [OF _ mem] conjI)
  next
    case False
    with Cons.prems have here: "library = l0" by auto
    from False have none: "\<forall>later \<in> set libraries. lib_id later \<noteq> lib_id l0"
      unfolding here by blast
    have keep: "map_of (generate_library_sensors ?r1 libraries) k = map_of ?r1 k"
      if "k \<in> library_keys l0" for k
      using library_keys_other [OF that none] by (rule map_of_generate_other)
    have size: "map_of (generate_library_sensors ?r1 libraries) (base_id l0 @ ''_size'') = Some (size_sensor l0)"
      by (subst keep) (simp_all add: library_keys_eq map_of_library_sensors)
    have items: "map_of (generate_library_sensors ?r1 libraries) (base_id l0 @ ''_items'') = Some (items_sensor l0)"
      by (subst keep) (simp_all add: library_keys_eq map_of_library_sensors)
    have duration: "map_of (generate_library_sensors ?r1 libraries) (base_id l0 @ ''_duration'') = Some (duration_sensor l0)"
      by (subst keep) (simp_all add: library_keys_eq map_of_library_sensors)
    have mem: "l0 \<in> set (l0 # libraries)" by simp
    show ?thesis
      using size items duration unfolding gen here by (intro bexI [OF _ mem] conjI refl)
  qed
qed

lemma map_of_dict_update_add:
  "map_of (dict_update d other) = map_of d ++ map_of (dict_update [] other)"
  unfolding dict_update_def
proof (induction other arbitrary: d rule: rev_induct)
  case Nil
  show ?case by simp
next
  case (snoc x other)
  obtain k v where x: "x = (k, v)" by (cases x)
  let ?f = "\<lambda>(k, v). dict_set k (v :: 'a)"
  have "map_of (fold ?f (other @ [x]) d) = (map_of (fold ?f other d))(k \<mapsto> v)"
    by (simp add: x map_of_dict_set)
  also have "\<dots> = (map_of d ++ map_of (fold ?f other []))(k \<mapsto> v)"
    by (simp only: snoc.IH [of d])
  also have "\<dots> = map_of d ++ (map_of (fold ?f other []))(k \<mapsto> v)"
    by (simp only: map_add_upd)
  also have "(map_of (fold ?f other []))(k \<mapsto> v) = map_of (fold ?f (other @ [x]) [])"
    by (simp add: x map_of_dict_set)
  finally show ?case .
qed

lemma map_of_generate_add:
  "map_of (generate_library_sensors registry libraries) =
     map_of registry ++ map_of (generate_library_sensors [] libraries)"
proof (induction libraries arbitrary: registry)
  case Nil
  show ?case by simp
next
  case (Cons l libraries)
  have "map_of (generate_library_sensors registry (l # libraries)) =
      (map_of registry ++ map_of (dict_update [] (library_sensors l)))
        ++ map_of (generate_library_sensors [] libraries)"
    by (simp add: Cons.IH [of "dict_update registry (library_sensors l)"]
        map_of_dict_update_add [of registry])
  moreover have "map_of (generate_library_sensors [] (l # libraries)) =
      map_of (dict_update [] (library_sensors l)) ++ map_of (generate_library_sensors [] libraries)"
    by (simp add: Cons.IH [of "dict_update [] (library_sensors l)"])
  ultimately show ?case by simp
qed

lemma alist_eqI:
  "map fst xs = map fst ys \<Longrightarrow> distinct (map fst xs) \<Longrightarrow> map_of xs = map_of ys \<Longrightarrow> xs = ys"
proof (induction xs arbitrary: ys)
  case Nil
  then show ?case by simp
next
  case (Cons x xs)
  from Cons.prems(1) obtain y ys' where ys: "ys = y # ys'" by (cases ys) auto
  obtain k v where x: "x = (k, v)" by (cases x)
  from Cons.prems(1) ys x obtain v' where y: "y = (k, v')" by (cases y) auto
  from Cons.prems(3) have "map_of (x # xs) k = map_of ys k" by (rule fun_cong)
  then have v: "v = v'" by (simp add: x y ys)
  from Cons.prems(1) have keys: "map fst xs = map fst ys'" by (simp add: ys)
  from Cons.prems(2) have "k \<notin> set (map fst xs)" by (simp add: x)
  then have fresh: "k \<notin> fst ` set xs" "k \<notin> fst ` set ys'"
    by (simp_all only: keys [symmetric] list.set_map [symmetric] simp_thms)
  have "map_of xs = map_of ys'"
  proof
    fix a
    show "map_of xs a = map_of ys' a"
    proof (cases "a = k")
      case True
      from fresh have "map_of xs k = None" "map_of ys' k = None"
        by (simp_all add: map_of_eq_None_iff)
      with True show ?thesis by simp
    next
      case False
      from Cons.prems(3) have "map_of (x # xs) a = map_of ys a" by (rule fun_cong)
      with False show ?thesis by (simp add: x y ys)
    qed
  qed
  with Cons.IH [of ys'] Cons.prems(1,2) have "xs = ys'" by (simp add: ys)
  with v show ?case by (simp add: x y ys)
qed

lemma generate_idempotent:
  assumes "distinct (map fst registry)"
  shows "generate_library_sensors (generate_library_sensors registry libraries) libraries
     = generate_library_sensors registry libraries"
proof (rule alist_eqI)
  let ?r = "generate_library_sensors registry libraries"
  have "(\<Union>library \<in> set libraries. library_keys library) \<subseteq> fst ` set ?r"
    by (simp add: keys_generate)
  then show keys: "map fst (generate_library_sensors ?r libraries) = map fst ?r"
    by (rule map_fst_generate_present)
  from assms have "distinct (map fst ?r)" by (rule distinct_generate)
  with keys show "distinct (map fst (generate_library_sensors ?r libraries))" by simp
  have "map_of (generate_library_sensors ?r libraries) =
      (map_of registry ++ map_of (generate_library_sensors [] libraries))
        ++ map_of (generate_library_sensors [] libraries)"
    by (subst map_of_generate_add) (simp add: map_of_generate_add [of registry])
  also have "\<dots> = map_of registry ++ map_of (generate_library_sensors [] libraries)"
    by (rule ext) (simp add: map_add_def split: option.splits)
  also have "\<dots> = map_of ?r"
    by (simp add: map_of_generate_add [of registry])
  finally show "map_of (generate_library_sensors ?r libraries) = map_of ?r" .
qed



lemma same_ids_same_keys:
  assumes "lib_id ` set libraries' = lib_id ` set libraries"
  shows "(\<Union>library \<in> set libraries'. library_keys library) = (\<Union>library \<in> set libraries. library_keys library)"
proof -
  have sub: "(\<Union>library \<in> set xs. library_keys library) \<subseteq> (\<Union>library \<in> set ys. library_keys library)"
    if "lib_id ` set xs \<subseteq> lib_id ` set ys" for xs ys :: "library list"
  proof
    fix k assume "k \<in> (\<Union>library \<in> set xs. library_keys library)"
    then obtain l where l: "l \<in> set xs" "k \<in> library_keys l" by blast
    with that obtain l' where l': "l' \<in> set ys" "lib_id l = lib_id l'" by blast
    from l'(2) have "library_keys l = library_keys l'" by (rule library_keys_same)
    with l(2) l'(1) show "k \<in> (\<Union>library \<in> set ys. library_keys library)" by blast
  qed
  from assms sub [of libraries' libraries] sub [of libraries libraries'] show ?thesis by simp
qed

lemma keys_generate_same_ids:
  assumes "lib_id ` set libraries' = lib_id ` set libraries"
  shows "map fst (generate_library_sensors (generate_library_sensors registry libraries) libraries')
     = map fst (generate_library_sensors registry libraries)"
proof (rule map_fst_generate_present)
  show "(\<Union>library \<in> set libraries'. library_keys library)
      \<subseteq> fst ` set (generate_library_sensors registry libraries)"
    by (simp add: keys_generate same_ids_same_keys [OF assms])
qed

lemma sensors_keys:
  "fst ` set sensors = {''users'', ''sessions'', ''libraries'', ''server_version''}"
  "distinct (map fst sensors)"
  by (simp_all add: sensors_def)

lemma library_key_not_fixed: "k \<in> library_keys l \<Longrightarrow> k \<notin> fst ` set sensors"
  by (auto simp: library_keys_eq base_id_def sensors_keys)

lemma card_library_keys_union:
  "card (\<Union>library \<in> set libraries. library_keys library) = 3 * card (lib_id ` set libraries)"
proof -
  define K where "K i = {''library_'' @ i @ ''_size'', ''library_'' @ i @ ''_items'', ''library_'' @ i @ ''_duration''}"
    for i :: string
  have keys: "library_keys l = K (lib_id l)" for l
    by (simp add: library_keys_eq base_id_def K_def)
  have union: "(\<Union>library \<in> set libraries. library_keys library) = (\<Union>i \<in> lib_id ` set libraries. K i)"
    by (simp add: keys)
  have card3: "card (K i) = 3" for i
    using card_library_keys [of "lib1\<lparr>lib_id := i\<rparr>"] by (simp add: keys)
  have disjoint: "K i \<inter> K j = {}" if "i \<noteq> j" for i j
    using library_keys_disjoint [of "lib1\<lparr>lib_id := i\<rparr>" "lib1\<lparr>lib_id := j\<rparr>"] that
    by (simp add: keys)
  have "card (\<Union>i \<in> lib_id ` set libraries. K i) = (\<Sum>i \<in> lib_id ` set libraries. card (K i))"
    by (rule card_UN_disjoint) (simp_all add: K_def disjoint)
  also have "\<dots> = 3 * card (lib_id ` set libraries)"
    by (simp add: card3)
  finally show ?thesis by (simp only: union)
qed

lemma length_generate_sensors:
  "length (generate_library_sensors sensors libraries) = 4 + 3 * card (lib_id ` set libraries)"
proof -
  let ?U = "\<Union>library \<in> set libraries. library_keys library"
  have "distinct (map fst (generate_library_sensors sensors libraries))"
    by (rule distinct_generate) (rule sensors_keys)
  then have "length (generate_library_sensors sensors libraries)
      = card (fst ` set (generate_library_sensors sensors libraries))"
    by (metis distinct_card length_map list.set_map)
  also have "\<dots> = card (fst ` set sensors \<union> ?U)"
    by (simp only: keys_generate)
  also have "\<dots> = card (fst ` set sensors) + card ?U"
  proof (rule card_Un_disjoint)
    show "finite (fst ` set sensors)" by simp
    show "finite ?U" by (simp add: library_keys_eq)
    show "fst ` set sensors \<inter> ?U = {}"
      using library_key_not_fixed by blast
  qed
  also have "card (fst ` set sensors) = 4"
    by (simp add: sensors_keys)
  finally show ?thesis by (simp add: card_library_keys_union)
qed

text \<open>
  Claim C5. The registry is a dict, so its keys are distinct. After
  \<open>generate_library_sensors\<close>, for every library of the list the keys
  \<open>library_<id>_size\<close>, \<open>library_<id>_items\<close> and \<open>library_<id>_duration\<close> hold the
  size, item and duration descriptors of a library of the list with that id (the last
  one, when several have the id). The keys of the registry are the former keys and these
  keys; the three keys of a library are distinct, and libraries with different ids have
  no key in common: each id has exactly three descriptors. Running the function again
  with a list that has the same set of ids leaves the keys, their order and the size of
  the registry unchanged, and running it again with the same list leaves the registry
  unchanged. From the fixed registry of four descriptors the result has four plus three
  times the number of distinct ids.
\<close>

theorem generate_library_sensors_registers:
  assumes "distinct (map fst registry)"
  shows "(\<forall>library \<in> set libraries. \<exists>l \<in> set libraries. lib_id l = lib_id library
        \<and> map_of (generate_library_sensors registry libraries) (''library_'' @ lib_id library @ ''_size'')
            = Some (size_sensor l)
        \<and> map_of (generate_library_sensors registry libraries) (''library_'' @ lib_id library @ ''_items'')
            = Some (items_sensor l)
        \<and> map_of (generate_library_sensors registry libraries) (''library_'' @ lib_id library @ ''_duration'')
            = Some (duration_sensor l))
    \<and> fst ` set (generate_library_sensors registry libraries)
        = fst ` set registry \<union> (\<Union>library \<in> set libraries. library_keys library)
    \<and> (\<forall>library \<in> set libraries. card (library_keys library) = 3
          \<and> (\<forall>other \<in> set libraries. lib_id other \<noteq> lib_id library \<longrightarrow>
                library_keys other \<inter> library_keys library = {}))
    \<and> distinct (map fst (generate_library_sensors registry libraries))
    \<and> (lib_id ` set libraries' = lib_id ` set libraries \<longrightarrow>
          map fst (generate_library_sensors (generate_library_sensors registry libraries) libraries')
            = map fst (generate_library_sensors registry libraries)
          \<and> length (generate_library_sensors (generate_library_sensors registry libraries) libraries')
            = length (generate_library_sensors registry libraries))
    \<and> generate_library_sensors (generate_library_sensors registry libraries) libraries
        = generate_library_sensors registry libraries
    \<and> length (generate_library_sensors sensors libraries) = 4 + 3 * card (lib_id ` set libraries)"
proof (intro conjI ballI impI)
  fix library assume "library \<in> set libraries"
  from map_of_generate_library [OF this, of registry]
  show "\<exists>l \<in> set libraries. lib_id l = lib_id library
        \<and> map_of (generate_library_sensors registry libraries) (''library_'' @ lib_id library @ ''_size'')
            = Some (size_sensor l)
        \<and> map_of (generate_library_sensors registry libraries) (''library_'' @ lib_id library @ ''_items'')
            = Some (items_sensor l)
        \<and> map_of (generate_library_sensors registry libraries) (''library_'' @ lib_id library @ ''_duration'')
            = Some (duration_sensor l)"
    by (simp add: base_id_def)
next
  show "fst ` set (generate_library_sensors registry libraries)
        = fst ` set registry \<union> (\<Union>library \<in> set libraries. library_keys library)"
    by (rule keys_generate)
next
  fix library :: library
  show "card (library_keys library) = 3" by (rule card_library_keys)
next
  fix library other :: library
  assume "lib_id other \<noteq> lib_id library"
  then show "library_keys other \<inter> library_keys library = {}" by (rule library_keys_disjoint)
next
  from assms show "distinct (map fst (generate_library_sensors registry libraries))"
    by (rule distinct_generate)
next
  assume same: "lib_id ` set libraries' = lib_id ` set libraries"
  then show keys: "map fst (generate_library_sensors (generate_library_sensors registry libraries) libraries')
            = map fst (generate_library_sensors registry libraries)"
    by (rule keys_generate_same_ids)
  from arg_cong [OF keys, of length]
  show "length (generate_library_sensors (generate_library_sensors registry libraries) libraries')
            = length (generate_library_sensors registry libraries)"
    by simp
next
  from assms show "generate_library_sensors (generate_library_sensors registry libraries) libraries
        = generate_library_sensors registry libraries"
    by (rule generate_idempotent)
next
  show "length (generate_library_sensors sensors libraries) = 4 + 3 * card (lib_id ` set libraries)"
    by (rule length_generate_sensors)
qed


text \<open>
  The spec's scenario: the fixed registry and the library \<open>lib1\<close> give seven
  descriptors, and registering \<open>lib1\<close> again under another name leaves seven.
\<close>

theorem generate_library_sensors_registers_witness:
  "distinct (map fst sensors)
   \<and> map_of (generate_library_sensors sensors [lib1]) ''library_lib1_size'' = Some (size_sensor lib1)
   \<and> map_of (generate_library_sensors sensors [lib1]) ''library_lib1_items'' = Some (items_sensor lib1)
   \<and> map_of (generate_library_sensors sensors [lib1]) ''library_lib1_duration'' = Some (duration_sensor lib1)
   \<and> length (generate_library_sensors sensors [lib1]) = 7
   \<and> length (generate_library_sensors (generate_library_sensors sensors [lib1]) [lib1\<lparr>lib_name := ''Audio''\<rparr>]) = 7"
proof -
  have d: "distinct (map fst sensors)" by (rule sensors_keys)
  note T = generate_library_sensors_registers [OF d, of "[lib1]" "[lib1\<lparr>lib_name := ''Audio''\<rparr>]"]
  have id: "lib_id lib1 = ''lib1''" by (simp add: lib1_def)
  from T have "\<forall>library \<in> set [lib1]. \<exists>l \<in> set [lib1]. lib_id l = lib_id library
        \<and> map_of (generate_library_sensors sensors [lib1]) (''library_'' @ lib_id library @ ''_size'')
            = Some (size_sensor l)
        \<and> map_of (generate_library_sensors sensors [lib1]) (''library_'' @ lib_id library @ ''_items'')
            = Some (items_sensor l)
        \<and> map_of (generate_library_sensors sensors [lib1]) (''library_'' @ lib_id library @ ''_duration'')
            = Some (duration_sensor l)"
    by (rule conjunct1)
  then have look: "map_of (generate_library_sensors sensors [lib1]) ''library_lib1_size'' = Some (size_sensor lib1)"
      "map_of (generate_library_sensors sensors [lib1]) ''library_lib1_items'' = Some (items_sensor lib1)"
      "map_of (generate_library_sensors sensors [lib1]) ''library_lib1_duration'' = Some (duration_sensor lib1)"
    by (simp_all add: id)
  from T have len: "length (generate_library_sensors sensors [lib1]) = 4 + 3 * card (lib_id ` set [lib1])"
    by blast
  then have seven: "length (generate_library_sensors sensors [lib1]) = 7" by simp
  have "lib_id ` set [lib1\<lparr>lib_name := ''Audio''\<rparr>] = lib_id ` set [lib1]" by simp
  with T have "length (generate_library_sensors (generate_library_sensors sensors [lib1]) [lib1\<lparr>lib_name := ''Audio''\<rparr>])
      = length (generate_library_sensors sensors [lib1])"
    by blast
  with seven have again: "length (generate_library_sensors (generate_library_sensors sensors [lib1]) [lib1\<lparr>lib_name := ''Audio''\<rparr>]) = 7"
    by simp
  from d look seven again show ?thesis by (intro conjI)
qed

end
